theory Spec2Isabelle
  imports Complex_Main "HOL-Library.Word"
begin

unbundle bit_operations_syntax

section \<open>Values of the source language\<close>

text \<open>
  The two programs are \<^verbatim>\<open>dnsfs_server.py\<close> and \<^verbatim>\<open>dnsfs_client.py\<close>.
  A Python \<^verbatim>\<open>bytes\<close> value is a list of 8-bit words. A Python \<^verbatim>\<open>str\<close> is a
  \<^typ>\<open>string\<close>; its characters are the 256 code points of Latin-1, which covers every
  name that a DNS label prints as and every character of the base64 and metadata
  alphabets. Python \<^verbatim>\<open>int\<close> is \<^typ>\<open>int\<close>; a length or a loop counter is a
  \<^typ>\<open>nat\<close>. An exception is a value of \<open>error\<close> on the left of a sum.
\<close>

type_synonym byte = "8 word"
type_synonym bytes = "byte list"

datatype error =
    FileNotFoundError string
  | ValueError
  | KeyError string
  | RuntimeError string
  | BinasciiError
  | UnicodeEncodeError
  | TransportError

subsection \<open>String methods\<close>

definition lower_char :: "char \<Rightarrow> char" where
  \<comment> \<open>the capital letters of Latin-1 are \<open>A\<close> to \<open>Z\<close> and the code points 192 to 222
      without the multiplication sign 215; the small letter is 32 higher\<close>
  "lower_char c = (let n = (of_char c :: nat) in
     if (65 \<le> n \<and> n \<le> 90) \<or> (192 \<le> n \<and> n \<le> 222 \<and> n \<noteq> 215)
     then char_of (n + 32) else c)"

definition lower :: "string \<Rightarrow> string" where
  \<comment> \<open>\<^verbatim>\<open>s.lower()\<close>\<close>
  "lower s = map lower_char s"

definition endswith :: "string \<Rightarrow> string \<Rightarrow> bool" where
  \<comment> \<open>\<^verbatim>\<open>s.endswith(suf)\<close>\<close>
  "endswith s suf = (length suf \<le> length s \<and> drop (length s - length suf) s = suf)"

definition startswith :: "string \<Rightarrow> string \<Rightarrow> bool" where
  \<comment> \<open>\<^verbatim>\<open>s.startswith(pre)\<close>\<close>
  "startswith s pre = (take (length pre) s = pre)"

definition strip_chars :: "string \<Rightarrow> string \<Rightarrow> string" where
  \<comment> \<open>\<^verbatim>\<open>s.strip(chars)\<close>: drops leading and trailing characters that occur in \<open>chars\<close>\<close>
  "strip_chars chars s =
     rev (dropWhile (\<lambda>c. c \<in> set chars) (rev (dropWhile (\<lambda>c. c \<in> set chars) s)))"

definition py_isspace :: "char \<Rightarrow> bool" where
  \<comment> \<open>the Latin-1 characters that \<^verbatim>\<open>str.strip()\<close> drops\<close>
  "py_isspace c = ((of_char c :: nat) \<in> {9, 10, 11, 12, 13, 28, 29, 30, 31, 32, 133, 160})"

definition strip_ws :: "string \<Rightarrow> string" where
  \<comment> \<open>\<^verbatim>\<open>s.strip()\<close>\<close>
  "strip_ws s = rev (dropWhile py_isspace (rev (dropWhile py_isspace s)))"

fun split_on :: "char \<Rightarrow> string \<Rightarrow> string list" where
  \<comment> \<open>\<^verbatim>\<open>s.split(sep)\<close> for a separator of one character\<close>
  "split_on sep [] = [[]]"
| "split_on sep (c # cs) =
     (if c = sep then [] # split_on sep cs
      else (case split_on sep cs of [] \<Rightarrow> [[c]] | p # ps \<Rightarrow> (c # p) # ps))"

definition digit_char :: "nat \<Rightarrow> char" where
  "digit_char d = char_of (48 + d)"

fun str_nat :: "nat \<Rightarrow> string" where
  \<comment> \<open>the decimal text of a non-negative number, as an f-string prints it\<close>
  "str_nat n = (if n < 10 then [digit_char n] else str_nat (n div 10) @ [digit_char (n mod 10)])"

declare str_nat.simps [simp del]

definition str_int :: "int \<Rightarrow> string" where
  "str_int i = (if i < 0 then CHR ''-'' # str_nat (nat (- i)) else str_nat (nat i))"

subsection \<open>\<^verbatim>\<open>int(s)\<close> on a string, base 10\<close>

definition int_isspace :: "char \<Rightarrow> bool" where
  \<comment> \<open>the characters that \<^verbatim>\<open>int\<close> skips at both ends of its argument: the six of ASCII
      and the two other whitespace characters of Latin-1; the separators 28 to 31, which
      \<^verbatim>\<open>str.strip()\<close> drops, are not among them\<close>
  "int_isspace c = ((of_char c :: nat) \<in> {9, 10, 11, 12, 13, 32, 133, 160})"

definition is_digit :: "char \<Rightarrow> bool" where
  "is_digit c = (48 \<le> (of_char c :: nat) \<and> (of_char c :: nat) \<le> 57)"

definition digit_val :: "char \<Rightarrow> nat" where
  "digit_val c = of_char c - 48"

fun py_digits :: "nat \<Rightarrow> bool \<Rightarrow> string \<Rightarrow> nat option" where
  \<comment> \<open>digits, with single underscores allowed between two digits; \<open>prev\<close> says that the
      character before was a digit\<close>
  "py_digits acc prev [] = (if prev then Some acc else None)"
| "py_digits acc prev (c # cs) =
     (if is_digit c then py_digits (acc * 10 + digit_val c) True cs
      else if c = CHR ''_'' \<and> prev \<and> cs \<noteq> [] \<and> is_digit (hd cs) then py_digits acc False cs
      else None)"

definition py_int :: "string \<Rightarrow> error + int" where
  \<comment> \<open>whitespace at both ends is skipped, one sign is allowed, anything else raises
      \<^verbatim>\<open>ValueError\<close>; the limit of 4300 digits is left out, a DNS label has at most 63
      characters and a \<^verbatim>\<open>TXT\<close> string at most 255\<close>
  "py_int s =
     (case rev (dropWhile int_isspace (rev (dropWhile int_isspace s))) of
        [] \<Rightarrow> Inl ValueError
      | c # cs \<Rightarrow>
          if c = CHR ''-'' then
            (case py_digits 0 False cs of None \<Rightarrow> Inl ValueError | Some n \<Rightarrow> Inr (- int n))
          else if c = CHR ''+'' then
            (case py_digits 0 False cs of None \<Rightarrow> Inl ValueError | Some n \<Rightarrow> Inr (int n))
          else
            (case py_digits 0 False (c # cs) of None \<Rightarrow> Inl ValueError | Some n \<Rightarrow> Inr (int n)))"

subsection \<open>\<^verbatim>\<open>range(start, stop, step)\<close>\<close>

function py_range :: "nat \<Rightarrow> nat \<Rightarrow> nat \<Rightarrow> nat list" where
  "py_range i stop step =
     (if step = 0 \<or> stop \<le> i then [] else i # py_range (i + step) stop step)"
  by pat_completeness auto
termination
  by (relation "measure (\<lambda>(i, stop, step). stop - i)") auto

declare py_range.simps [simp del]

section \<open>Base64 of the standard library\<close>

text \<open>
  \<^verbatim>\<open>base64.b64encode\<close> and \<^verbatim>\<open>base64.b64decode\<close> belong to Python's standard
  library. The encoder follows RFC 4648: three bytes give four characters, a rest of
  one or two bytes is padded with \<open>=\<close>. Its output is ASCII, which is why the
  \<^verbatim>\<open>.decode("ascii")\<close> that the server applies to it is left out. The decoder is the
  loop of \<^verbatim>\<open>binascii.a2b_base64\<close> in its default, non-strict mode: characters outside
  the alphabet are skipped, a complete padding ends the input, and an incomplete
  last quad raises \<^verbatim>\<open>binascii.Error\<close>.
\<close>

definition b64_alphabet :: string where
  "b64_alphabet = ''ABCDEFGHIJKLMNOPQRSTUVWXYZabcdefghijklmnopqrstuvwxyz0123456789+/''"

definition b64_char :: "nat \<Rightarrow> char" where
  "b64_char n = b64_alphabet ! n"

definition b64_index :: "char \<Rightarrow> nat option" where
  "b64_index c = (let n = (of_char c :: nat) in
     if 65 \<le> n \<and> n \<le> 90 then Some (n - 65)
     else if 97 \<le> n \<and> n \<le> 122 then Some (n - 71)
     else if 48 \<le> n \<and> n \<le> 57 then Some (n + 4)
     else if n = 43 then Some 62
     else if n = 47 then Some 63
     else None)"

fun b64encode :: "bytes \<Rightarrow> string" where
  "b64encode [] = []"
| "b64encode [a] =
     [b64_char (unat a div 4), b64_char (unat a mod 4 * 16), CHR ''='', CHR ''='']"
| "b64encode [a, b] =
     [b64_char (unat a div 4), b64_char (unat a mod 4 * 16 + unat b div 16),
      b64_char (unat b mod 16 * 4), CHR ''='']"
| "b64encode (a # b # c # rest) =
     [b64_char (unat a div 4), b64_char (unat a mod 4 * 16 + unat b div 16),
      b64_char (unat b mod 16 * 4 + unat c div 64), b64_char (unat c mod 64)]
     @ b64encode rest"

fun a2b_base64 :: "string \<Rightarrow> nat \<Rightarrow> nat \<Rightarrow> nat \<Rightarrow> bytes \<Rightarrow> error + bytes" where
  "a2b_base64 [] quad_pos leftchar pads out =
     (if quad_pos \<noteq> 0 then Inl BinasciiError else Inr out)"
| "a2b_base64 (c # cs) quad_pos leftchar pads out =
     (if c = CHR ''='' then
        (if 2 \<le> quad_pos \<and> 4 \<le> quad_pos + (pads + 1) then Inr out
         else a2b_base64 cs quad_pos leftchar (if 2 \<le> quad_pos then pads + 1 else pads) out)
      else
        (case b64_index c of
           None \<Rightarrow> a2b_base64 cs quad_pos leftchar pads out
         | Some v \<Rightarrow>
             if quad_pos = 0 then a2b_base64 cs 1 v 0 out
             else if quad_pos = 1 then
               a2b_base64 cs 2 (v mod 16) 0 (out @ [of_nat (leftchar * 4 + v div 16)])
             else if quad_pos = 2 then
               a2b_base64 cs 3 (v mod 4) 0 (out @ [of_nat (leftchar * 16 + v div 4)])
             else a2b_base64 cs 0 0 0 (out @ [of_nat (leftchar * 64 + v)])))"

definition b64decode :: "string \<Rightarrow> error + bytes" where
  "b64decode s = a2b_base64 s 0 0 0 []"

definition encode_ascii :: "string \<Rightarrow> error + string" where
  \<comment> \<open>\<^verbatim>\<open>s.encode("ascii")\<close>: a character above 127 raises\<close>
  "encode_ascii s =
     (if list_all (\<lambda>c. (of_char c :: nat) < 128) s then Inr s else Inl UnicodeEncodeError)"

section \<open>SHA-256 of the standard library\<close>

text \<open>
  \<^verbatim>\<open>hashlib.sha256(data).hexdigest()\<close> is the SHA-256 of FIPS 180-4 over 32-bit words,
  printed as 64 lower-case hexadecimal digits. The message schedule is kept as a
  window of sixteen words that moves by one word each round. The round constants and
  the initial hash value of the standard are written in decimal.
\<close>

type_synonym w32 = "32 word"

definition rotr :: "nat \<Rightarrow> w32 \<Rightarrow> w32" where
  "rotr n x = drop_bit n x OR push_bit (32 - n) x"

definition Ch :: "w32 \<Rightarrow> w32 \<Rightarrow> w32 \<Rightarrow> w32" where
  "Ch x y z = (x AND y) XOR (NOT x AND z)"

definition Maj :: "w32 \<Rightarrow> w32 \<Rightarrow> w32 \<Rightarrow> w32" where
  "Maj x y z = (x AND y) XOR (x AND z) XOR (y AND z)"

definition Sigma0 :: "w32 \<Rightarrow> w32" where
  "Sigma0 x = rotr 2 x XOR rotr 13 x XOR rotr 22 x"

definition Sigma1 :: "w32 \<Rightarrow> w32" where
  "Sigma1 x = rotr 6 x XOR rotr 11 x XOR rotr 25 x"

definition sigma0 :: "w32 \<Rightarrow> w32" where
  "sigma0 x = rotr 7 x XOR rotr 18 x XOR drop_bit 3 x"

definition sigma1 :: "w32 \<Rightarrow> w32" where
  "sigma1 x = rotr 17 x XOR rotr 19 x XOR drop_bit 10 x"

definition sha256_K :: "w32 list" where
  "sha256_K = [
    1116352408, 1899447441, 3049323471, 3921009573, 961987163, 1508970993, 2453635748, 2870763221,
    3624381080, 310598401, 607225278, 1426881987, 1925078388, 2162078206, 2614888103, 3248222580,
    3835390401, 4022224774, 264347078, 604807628, 770255983, 1249150122, 1555081692, 1996064986,
    2554220882, 2821834349, 2952996808, 3210313671, 3336571891, 3584528711, 113926993, 338241895,
    666307205, 773529912, 1294757372, 1396182291, 1695183700, 1986661051, 2177026350, 2456956037,
    2730485921, 2820302411, 3259730800, 3345764771, 3516065817, 3600352804, 4094571909, 275423344,
    430227734, 506948616, 659060556, 883997877, 958139571, 1322822218, 1537002063, 1747873779,
    1955562222, 2024104815, 2227730452, 2361852424, 2428436474, 2756734187, 3204031479, 3329325298]"

definition sha256_H0 :: "w32 list" where
  "sha256_H0 = [1779033703, 3144134277, 1013904242, 2773480762,
                1359893119, 2600822924, 528734635, 1541459225]"

definition be64 :: "64 word \<Rightarrow> bytes" where
  "be64 w = [ucast (drop_bit 56 w), ucast (drop_bit 48 w), ucast (drop_bit 40 w),
             ucast (drop_bit 32 w), ucast (drop_bit 24 w), ucast (drop_bit 16 w),
             ucast (drop_bit 8 w), ucast w]"

definition be32 :: "w32 \<Rightarrow> bytes" where
  "be32 w = [ucast (drop_bit 24 w), ucast (drop_bit 16 w), ucast (drop_bit 8 w), ucast w]"

definition sha256_pad :: "bytes \<Rightarrow> bytes" where
  "sha256_pad m =
     (let l = length m; z = (119 - l mod 64) mod 64
      in m @ [0x80] @ replicate z 0 @ be64 (of_nat (8 * l)))"

fun be_words :: "bytes \<Rightarrow> w32 list" where
  "be_words (a # b # c # d # rest) =
     (push_bit 24 (ucast a) OR push_bit 16 (ucast b) OR push_bit 8 (ucast c) OR ucast d)
     # be_words rest"
| "be_words _ = []"

definition next_w :: "w32 list \<Rightarrow> w32" where
  "next_w w = sigma1 (w ! 14) + w ! 9 + sigma0 (w ! 1) + w ! 0"

definition sha256_round :: "w32 list \<Rightarrow> w32 \<Rightarrow> w32 \<Rightarrow> w32 list" where
  "sha256_round s k w =
     (let a = s ! 0; b = s ! 1; c = s ! 2; d = s ! 3;
          e = s ! 4; f = s ! 5; g = s ! 6; h = s ! 7;
          t1 = h + Sigma1 e + Ch e f g + k + w;
          t2 = Sigma0 a + Maj a b c
      in [t1 + t2, a, b, c, d + t1, e, f, g])"

fun sha256_rounds :: "w32 list \<Rightarrow> w32 list \<times> w32 list \<Rightarrow> w32 list \<times> w32 list" where
  \<comment> \<open>one round for each constant; the state is the eight working variables and the
      schedule window\<close>
  "sha256_rounds [] sw = sw"
| "sha256_rounds (k # ks) sw =
     sha256_rounds ks
       (sha256_round (fst sw) k (hd (snd sw)), tl (snd sw) @ [next_w (snd sw)])"

definition sha256_block :: "w32 list \<Rightarrow> bytes \<Rightarrow> w32 list" where
  "sha256_block hs blk = map2 (+) hs (fst (sha256_rounds sha256_K (hs, be_words blk)))"

function sha256_blocks :: "w32 list \<Rightarrow> bytes \<Rightarrow> w32 list" where
  "sha256_blocks hs m =
     (if length m < 64 then hs
      else sha256_blocks (sha256_block hs (take 64 m)) (drop 64 m))"
  by pat_completeness auto
termination
  by (relation "measure (\<lambda>(hs, m). length m)") auto

declare sha256_blocks.simps [simp del]

definition sha256 :: "bytes \<Rightarrow> bytes" where
  "sha256 m = concat (map be32 (sha256_blocks sha256_H0 (sha256_pad m)))"

definition hex_digit :: "nat \<Rightarrow> char" where
  "hex_digit n = ''0123456789abcdef'' ! n"

definition hexdigest :: "bytes \<Rightarrow> string" where
  "hexdigest bs = concat (map (\<lambda>b. [hex_digit (unat b div 16), hex_digit (unat b mod 16)]) bs)"

definition sha256_hex :: "bytes \<Rightarrow> string" where
  \<comment> \<open>the function of this name in both source files\<close>
  "sha256_hex data = hexdigest (sha256 data)"

section \<open>The server: \<^verbatim>\<open>dnsfs_server.py\<close>\<close>

definition ZONE :: string where
  "ZONE = ''lab.''"

definition TTL :: nat where
  "TTL = 60"

definition CHUNK_CHARS :: nat where
  "CHUNK_CHARS = 180"

definition s_name :: "string \<Rightarrow> string" where
  "s_name s =
     (let ok = ''abcdefghijklmnopqrstuvwxyz0123456789-_'';
          s = lower s
      in filter (\<lambda>c. c \<in> set ok) s)"

text \<open>
  The store directory is a map from the path below \<^verbatim>\<open>STORE_DIR\<close> to what is there: a
  regular file with its content, or something that exists and is no regular file.
  \<^verbatim>\<open>p.exists() and p.is_file()\<close> holds exactly for a regular file, and
  \<^verbatim>\<open>read_bytes\<close> returns its content.
\<close>

datatype entry = File bytes | Dir

type_synonym store = "string \<Rightarrow> entry option"

fun first_file :: "store \<Rightarrow> string list \<Rightarrow> bytes option" where
  \<comment> \<open>the loop over the candidates\<close>
  "first_file st [] = None"
| "first_file st (p # ps) =
     (case st p of Some (File data) \<Rightarrow> Some data | _ \<Rightarrow> first_file st ps)"

definition f_bytes :: "store \<Rightarrow> string \<Rightarrow> error + bytes" where
  "f_bytes st name =
     (let candidates = [name, name @ ''.bin'', name @ ''.txt'']
      in case first_file st candidates of
           Some data \<Rightarrow> Inr data
         | None \<Rightarrow> Inl (FileNotFoundError name))"

definition b64_chunks :: "bytes \<Rightarrow> string list" where
  "b64_chunks data =
     (let b64 = b64encode data
      in map (\<lambda>i. take CHUNK_CHARS (drop i b64)) (py_range 0 (length b64) CHUNK_CHARS))"

text \<open>
  A request carries the header id, the query name as \<^verbatim>\<open>str(request.q.qname)\<close> prints it
  and the mnemonic \<^verbatim>\<open>QTYPE[request.q.qtype]\<close> of the record type. A reply carries the
  id, the response code and the answer records.
\<close>

record request =
  q_id :: nat
  q_name :: string
  q_type :: string

datatype rcode = NOERROR | NXDOMAIN

record rr =
  rr_name :: string
  rr_type :: string
  rr_ttl :: nat
  rr_rdata :: string

record reply =
  r_id :: nat
  r_rcode :: rcode
  r_rr :: "rr list"

definition TXT_RR :: "string \<Rightarrow> string \<Rightarrow> rr" where
  \<comment> \<open>\<^verbatim>\<open>RR(qname, QTYPE.TXT, ttl=TTL, rdata=TXT(txt))\<close>\<close>
  "TXT_RR qname txt = \<lparr>rr_name = qname, rr_type = ''TXT'', rr_ttl = TTL, rr_rdata = txt\<rparr>"

definition add_answer :: "reply \<Rightarrow> rr \<Rightarrow> reply" where
  "add_answer reply a = reply\<lparr>r_rr := r_rr reply @ [a]\<rparr>"

definition resolve :: "store \<Rightarrow> request \<Rightarrow> 'h \<Rightarrow> reply" where
  "resolve st request handler =
     (let qname = lower (q_name request);
          qtype = q_type request;
          reply = \<lparr>r_id = q_id request, r_rcode = NOERROR, r_rr = []\<rparr>
      in
      if \<not> endswith qname ZONE then reply\<lparr>r_rcode := NXDOMAIN\<rparr>
      else if qtype \<noteq> ''TXT'' then reply\<lparr>r_rcode := NXDOMAIN\<rparr>
      else
        let label = strip_chars ''.'' (take (length qname - length ZONE) qname) in
        if label = [] then add_answer reply (TXT_RR qname ''dnsfs-lab: use meta.<name>.lab'')
        else
          let parts = split_on CHR ''.'' label in
          if length parts = 2 \<and> parts ! 0 = ''meta'' then
            (let name = s_name (parts ! 1) in
             case f_bytes st name of
               Inl e \<Rightarrow> reply\<lparr>r_rcode := NXDOMAIN\<rparr>
             | Inr data \<Rightarrow>
                 let chunks = b64_chunks data;
                     meta = ''chunks='' @ str_nat (length chunks) @ '';enc=base64;sha256=''
                            @ sha256_hex data @ '';bytes='' @ str_nat (length data)
                 in add_answer reply (TXT_RR qname meta))
          else if length parts = 2 \<and> startswith (parts ! 0) ''chunk'' then
            (let name = s_name (parts ! 1) in
             case py_int (drop 5 (parts ! 0)) of
               Inl e \<Rightarrow> reply\<lparr>r_rcode := NXDOMAIN\<rparr>
             | Inr idx \<Rightarrow>
                 (case f_bytes st name of
                    Inl e \<Rightarrow> reply\<lparr>r_rcode := NXDOMAIN\<rparr>
                  | Inr data \<Rightarrow>
                      let chunks = b64_chunks data in
                      if idx < 0 \<or> int (length chunks) \<le> idx
                      then reply\<lparr>r_rcode := NXDOMAIN\<rparr>
                      else add_answer reply (TXT_RR qname (chunks ! nat idx))))
          else reply\<lparr>r_rcode := NXDOMAIN\<rparr>)"

section \<open>The client: \<^verbatim>\<open>dnsfs_client.py\<close>\<close>

definition ZONE_client :: string where
  \<comment> \<open>the client's \<^verbatim>\<open>ZONE\<close>\<close>
  "ZONE_client = ''lab''"

text \<open>
  The query itself (\<^verbatim>\<open>DNSRecord.question\<close>, \<^verbatim>\<open>send\<close>, \<^verbatim>\<open>DNSRecord.parse\<close>) is the
  parameter \<open>send\<close>: it fails, with a timeout or a packet that does not parse, or it
  gives the response code and the answers, each as \<^verbatim>\<open>str(rr.rdata)\<close> prints it.
\<close>

record answer =
  a_rcode :: nat
  a_rr :: "string list"

type_synonym transport = "string \<Rightarrow> error + answer"

definition queryt :: "transport \<Rightarrow> string \<Rightarrow> error + string" where
  "queryt send name =
     (case send name of
        Inl e \<Rightarrow> Inl e
      | Inr r \<Rightarrow>
          if a_rcode r \<noteq> 0 \<or> length (a_rr r) = 0
          then Inl (RuntimeError (''NXDOMAIN/empty for '' @ name))
          else let txt = a_rr r ! 0 in Inr (strip_chars [CHR 0x22] txt))"

definition parse_meta :: "string \<Rightarrow> (string \<Rightarrow> string option)" where
  "parse_meta meta =
     foldl (\<lambda>out part.
              if CHR ''='' \<in> set part then
                let k = takeWhile (\<lambda>c. c \<noteq> CHR ''='') part;
                    v = tl (dropWhile (\<lambda>c. c \<noteq> CHR ''='') part)
                in out(strip_ws k \<mapsto> strip_ws v)
              else out)
           Map.empty (split_on CHR '';'' meta)"

definition meta_fields :: "string \<Rightarrow> error + int \<times> string \<times> int" where
  \<comment> \<open>lines 41 and 43 to 45 of \<^verbatim>\<open>fetchf\<close>: \<open>chunk_count\<close>, \<open>expected_sha\<close>,
      \<open>expected_bytes\<close>\<close>
  "meta_fields meta_txt =
     (let meta = parse_meta meta_txt in
      case meta ''chunks'' of
        None \<Rightarrow> Inl (KeyError ''chunks'')
      | Some c \<Rightarrow>
          (case py_int c of
             Inl e \<Rightarrow> Inl e
           | Inr chunk_count \<Rightarrow>
               let expected_sha = (case meta ''sha256'' of None \<Rightarrow> [] | Some v \<Rightarrow> v) in
               case py_int (case meta ''bytes'' of None \<Rightarrow> ''0'' | Some v \<Rightarrow> v) of
                 Inl e \<Rightarrow> Inl e
               | Inr expected_bytes \<Rightarrow> Inr (chunk_count, expected_sha, expected_bytes)))"

fun fetch_chunks ::
  "transport \<Rightarrow> string \<Rightarrow> nat list \<Rightarrow> string list \<Rightarrow> error + string list" where
  \<comment> \<open>the loop over \<^verbatim>\<open>range(chunk_count)\<close>, stopped by the first query that raises\<close>
  "fetch_chunks send name [] chunks = Inr chunks"
| "fetch_chunks send name (i # rest) chunks =
     (case queryt send (''chunk'' @ str_nat i @ ''.'' @ name @ ''.'' @ ZONE_client) of
        Inl e \<Rightarrow> Inl e
      | Inr c \<Rightarrow> fetch_chunks send name rest (chunks @ [c]))"

type_synonym files = "string \<Rightarrow> bytes option"

definition fetchf ::
  "transport \<Rightarrow> string \<Rightarrow> string \<Rightarrow> files \<Rightarrow> (error + string) \<times> files" where
  \<comment> \<open>the result and the files of the client afterwards; \<^verbatim>\<open>write_bytes\<close> is the only
      statement that changes them\<close>
  "fetchf send name out_path fs =
     (case queryt send (''meta.'' @ name @ ''.'' @ ZONE_client) of
        Inl e \<Rightarrow> (Inl e, fs)
      | Inr meta_txt \<Rightarrow>
     (case meta_fields meta_txt of
        Inl e \<Rightarrow> (Inl e, fs)
      | Inr (chunk_count, expected_sha, expected_bytes) \<Rightarrow>
     (case fetch_chunks send name [0..<nat chunk_count] [] of
        Inl e \<Rightarrow> (Inl e, fs)
      | Inr chunks \<Rightarrow>
     (case encode_ascii (concat chunks) of
        Inl e \<Rightarrow> (Inl e, fs)
      | Inr joined \<Rightarrow>
     (case b64decode joined of
        Inl e \<Rightarrow> (Inl e, fs)
      | Inr data \<Rightarrow>
          if expected_bytes \<noteq> 0 \<and> int (length data) \<noteq> expected_bytes then
            (Inl (RuntimeError (''size mismatch: got '' @ str_nat (length data)
                                @ '' expected '' @ str_int expected_bytes)), fs)
          else if expected_sha \<noteq> [] \<and> sha256_hex data \<noteq> expected_sha then
            (Inl (RuntimeError ''sha256 mismatch (data corrupted or wrong order)''), fs)
          else (Inr out_path, fs(out_path \<mapsto> data)))))))"

section \<open>Client and server joined\<close>

text \<open>
  The transport between the two programs is the library \<^verbatim>\<open>dnslib\<close>. For a client whose
  queries reach a server with the store \<open>st\<close> it does this: the query name is printed
  with the dot of the root at its end, the record type asked for is \<^verbatim>\<open>TXT\<close>, the
  response code \<^verbatim>\<open>NXDOMAIN\<close> is the number 3, and the text of a \<^verbatim>\<open>TXT\<close> answer is
  printed between double quotes.
\<close>

definition dns_send :: "store \<Rightarrow> transport" where
  "dns_send st name =
     (let reply = resolve st \<lparr>q_id = 0,
                              q_name = (if endswith name ''.'' then name else name @ ''.''),
                              q_type = ''TXT''\<rparr> ()
      in Inr \<lparr>a_rcode = (case r_rcode reply of NOERROR \<Rightarrow> 0 | NXDOMAIN \<Rightarrow> 3),
              a_rr = map (\<lambda>a. [CHR 0x22] @ rr_rdata a @ [CHR 0x22]) (r_rr reply)\<rparr>)"

definition hello_bytes :: bytes where
  \<comment> \<open>the eleven bytes of \<^verbatim>\<open>hello world\<close>\<close>
  "hello_bytes = [0x68, 0x65, 0x6c, 0x6c, 0x6f, 0x20, 0x77, 0x6f, 0x72, 0x6c, 0x64]"

definition hello_store :: store where
  "hello_store = (\<lambda>p. if p = ''hello'' then Some (File hello_bytes) else None)"

text \<open>
  A transport for tests: it answers every meta query with the text \<open>meta\<close> and every
  other query with \<open>chunk\<close>, which is a text or a failure.
\<close>

definition scripted_send :: "string \<Rightarrow> error + string \<Rightarrow> transport" where
  "scripted_send meta chunk name =
     (if take 5 name = ''meta.'' then Inr \<lparr>a_rcode = 0, a_rr = [meta]\<rparr>
      else case chunk of Inl e \<Rightarrow> Inl e | Inr c \<Rightarrow> Inr \<lparr>a_rcode = 0, a_rr = [c]\<rparr>)"

definition label_parts :: "string \<Rightarrow> string list" where
  \<comment> \<open>the \<open>parts\<close> that \<open>resolve\<close> computes for a query name that ends with the zone\<close>
  "label_parts qname =
     split_on CHR ''.'' (strip_chars ''.'' (take (length qname - length ZONE) qname))"

section \<open>Properties\<close>

subsection \<open>Sanitising names\<close>

lemma ok_chars:
  "list_all (\<lambda>c. lower_char c = c
      \<and> ((97 \<le> (of_char c :: nat) \<and> (of_char c :: nat) \<le> 122)
        \<or> (48 \<le> (of_char c :: nat) \<and> (of_char c :: nat) \<le> 57)
        \<or> c = CHR ''-'' \<or> c = CHR ''_''))
     ''abcdefghijklmnopqrstuvwxyz0123456789-_''"
  by code_simp

lemma lower_char_ok:
  "c \<in> set ''abcdefghijklmnopqrstuvwxyz0123456789-_'' \<Longrightarrow> lower_char c = c"
  using ok_chars unfolding list_all_iff by blast

lemma s_name_chars: "set (s_name s) \<subseteq> set ''abcdefghijklmnopqrstuvwxyz0123456789-_''"
  unfolding s_name_def Let_def by (rule subsetI) (simp only: set_filter mem_Collect_eq)

lemma lower_s_name: "lower (s_name s) = s_name s"
proof -
  have "map lower_char (s_name s) = map (\<lambda>c. c) (s_name s)"
    using s_name_chars [of s] by (intro map_cong refl lower_char_ok) blast
  then show ?thesis by (simp add: lower_def)
qed

text \<open>
  C9. \<^verbatim>\<open>s_name\<close> is a total function (it has no error result), every character of its
  result is a lower-case letter, a digit, \<open>-\<close> or \<open>_\<close>, and sanitising a sanitised name
  changes nothing.
\<close>

theorem s_name_idempotent:
  "(\<forall>c \<in> set (s_name s).
      (97 \<le> (of_char c :: nat) \<and> (of_char c :: nat) \<le> 122)
    \<or> (48 \<le> (of_char c :: nat) \<and> (of_char c :: nat) \<le> 57)
    \<or> c = CHR ''-'' \<or> c = CHR ''_'')
   \<and> s_name (s_name s) = s_name s"
proof
  show "\<forall>c \<in> set (s_name s).
      (97 \<le> (of_char c :: nat) \<and> (of_char c :: nat) \<le> 122)
    \<or> (48 \<le> (of_char c :: nat) \<and> (of_char c :: nat) \<le> 57)
    \<or> c = CHR ''-'' \<or> c = CHR ''_''"
  proof
    fix c assume "c \<in> set (s_name s)"
    then have "c \<in> set ''abcdefghijklmnopqrstuvwxyz0123456789-_''"
      using s_name_chars by blast
    then show "(97 \<le> (of_char c :: nat) \<and> (of_char c :: nat) \<le> 122)
      \<or> (48 \<le> (of_char c :: nat) \<and> (of_char c :: nat) \<le> 57)
      \<or> c = CHR ''-'' \<or> c = CHR ''_''"
      using ok_chars unfolding list_all_iff by blast
  qed
next
  have "filter (\<lambda>c. c \<in> set ''abcdefghijklmnopqrstuvwxyz0123456789-_'') (s_name s) = s_name s"
    using s_name_chars [of s] by (intro filter_True) blast
  then show "s_name (s_name s) = s_name s"
    by (simp add: s_name_def [of "s_name s"] Let_def lower_s_name)
qed

theorem s_name_idempotent_witness:
  "s_name ''Hello World!.TXT'' = ''helloworldtxt''
   \<and> s_name (s_name ''Hello World!.TXT'') = ''helloworldtxt''"
proof -
  have "s_name ''Hello World!.TXT'' = ''helloworldtxt''"
    by code_simp
  then show ?thesis
    using s_name_idempotent [of "''Hello World!.TXT''"] by simp
qed

subsection \<open>Base64: decoding what was encoded\<close>

lemma less_numeral_cases: "(n::nat) < numeral k \<longleftrightarrow> n = pred_numeral k \<or> n < pred_numeral k"
  by (auto simp: numeral_eq_Suc)

lemma b64_table:
  "n < 64 \<Longrightarrow> b64_index (b64_char n) = Some n \<and> b64_char n \<noteq> CHR ''=''"
  by (auto simp: less_numeral_cases b64_index_def b64_char_def b64_alphabet_def)

lemma b64_index_char: "n < 64 \<Longrightarrow> b64_index (b64_char n) = Some n"
  using b64_table by blast

lemma b64_alphabet_ascii: "list_all (\<lambda>c. (of_char c :: nat) < 128) b64_alphabet"
  by (simp add: b64_alphabet_def)

lemma b64_char_ascii:
  assumes "n < 64"
  shows "(of_char (b64_char n) :: nat) < 128"
proof -
  have "length b64_alphabet = 64" by (simp add: b64_alphabet_def)
  with assms have "b64_char n \<in> set b64_alphabet" by (simp add: b64_char_def)
  with b64_alphabet_ascii show ?thesis by (simp add: list_all_iff)
qed

lemma b64_char_not_pad: "n < 64 \<Longrightarrow> b64_char n \<noteq> CHR ''=''"
  using b64_table by blast

lemma div_shift: "b < n \<Longrightarrow> (a * n + b) div n = (a::nat)"
  by simp

lemma mod_shift: "b < n \<Longrightarrow> (a * n + b) mod n = (b::nat)"
  by simp

lemma unat_byte: "unat (a :: byte) < 256"
  using unsigned_less [of a, where ?'a = nat] by simp

lemma sextets:
  fixes x y z :: nat
  assumes "x < 256" "y < 256" "z < 256"
  shows "x div 4 < 64" "x mod 4 * 16 + y div 16 < 64" "y mod 16 * 4 + z div 64 < 64"
    "z mod 64 < 64" "x mod 4 * 16 < 64" "y mod 16 * 4 < 64"
proof -
  have "y div 16 < 16" "z div 64 < 4" using assms by simp_all
  moreover have "x mod 4 < 4" "y mod 16 < 16" by simp_all
  ultimately show "x div 4 < 64" "x mod 4 * 16 + y div 16 < 64" "y mod 16 * 4 + z div 64 < 64"
    "z mod 64 < 64" "x mod 4 * 16 < 64" "y mod 16 * 4 < 64"
    using assms by simp_all
qed

lemma octets:
  fixes x y z :: nat
  assumes "x < 256" "y < 256" "z < 256"
  shows "x div 4 * 4 + (x mod 4 * 16 + y div 16) div 16 = x"
    "(x mod 4 * 16 + y div 16) mod 16 * 16 + (y mod 16 * 4 + z div 64) div 4 = y"
    "(y mod 16 * 4 + z div 64) mod 4 * 64 + z mod 64 = z"
    "x div 4 * 4 + x mod 4 * 16 div 16 = x"
    "(x mod 4 * 16 + y div 16) mod 16 * 16 + y mod 16 * 4 div 4 = y"
proof -
  have hy: "y div 16 < 16" and hz: "z div 64 < 4" using assms by simp_all
  show "x div 4 * 4 + (x mod 4 * 16 + y div 16) div 16 = x"
    by (simp add: div_shift [OF hy])
  show "(x mod 4 * 16 + y div 16) mod 16 * 16 + (y mod 16 * 4 + z div 64) div 4 = y"
    by (simp add: mod_shift [OF hy] div_shift [OF hz] mod_less [OF hy])
  show "(y mod 16 * 4 + z div 64) mod 4 * 64 + z mod 64 = z"
    by (simp add: mod_shift [OF hz] mod_less [OF hz])
  show "x div 4 * 4 + x mod 4 * 16 div 16 = x"
    by simp
  show "(x mod 4 * 16 + y div 16) mod 16 * 16 + y mod 16 * 4 div 4 = y"
    by (simp add: mod_shift [OF hy] mod_less [OF hy])
qed

lemma a2b_step4:
  assumes "s0 < 64" "s1 < 64" "s2 < 64" "s3 < 64"
  shows "a2b_base64 (b64_char s0 # b64_char s1 # b64_char s2 # b64_char s3 # rest) 0 lc p out
       = a2b_base64 rest 0 0 0
           (out @ [of_nat (s0 * 4 + s1 div 16), of_nat (s1 mod 16 * 16 + s2 div 4),
                   of_nat (s2 mod 4 * 64 + s3)])"
  using assms by (simp add: b64_index_char b64_char_not_pad)

lemma a2b_step3:
  assumes "s0 < 64" "s1 < 64" "s2 < 64"
  shows "a2b_base64 [b64_char s0, b64_char s1, b64_char s2, CHR ''=''] 0 lc p out
       = Inr (out @ [of_nat (s0 * 4 + s1 div 16), of_nat (s1 mod 16 * 16 + s2 div 4)])"
  using assms by (simp add: b64_index_char b64_char_not_pad)

lemma a2b_step2:
  assumes "s0 < 64" "s1 < 64"
  shows "a2b_base64 [b64_char s0, b64_char s1, CHR ''='', CHR ''=''] 0 lc p out
       = Inr (out @ [of_nat (s0 * 4 + s1 div 16)])"
  using assms by (simp add: b64_index_char b64_char_not_pad)

lemma a2b_quad:
  fixes a b c :: byte
  shows "a2b_base64 (b64encode (a # b # c # rest)) 0 lc p out
       = a2b_base64 (b64encode rest) 0 0 0 (out @ [a, b, c])"
proof -
  note s = sextets [OF unat_byte [of a] unat_byte [of b] unat_byte [of c]]
  note e = octets [OF unat_byte [of a] unat_byte [of b] unat_byte [of c]]
  show ?thesis
    unfolding b64encode.simps append.simps a2b_step4 [OF s(1) s(2) s(3) s(4)] e
    by simp
qed

lemma a2b_one:
  fixes a :: byte
  shows "a2b_base64 (b64encode [a]) 0 lc p out = Inr (out @ [a])"
proof -
  note s = sextets [OF unat_byte [of a] unat_byte [of a] unat_byte [of a]]
  note e = octets [OF unat_byte [of a] unat_byte [of a] unat_byte [of a]]
  show ?thesis
    unfolding b64encode.simps a2b_step2 [OF s(1) s(5)] e
    by simp
qed

lemma a2b_two:
  fixes a b :: byte
  shows "a2b_base64 (b64encode [a, b]) 0 lc p out = Inr (out @ [a, b])"
proof -
  note s = sextets [OF unat_byte [of a] unat_byte [of b] unat_byte [of b]]
  note e = octets [OF unat_byte [of a] unat_byte [of b] unat_byte [of b]]
  show ?thesis
    unfolding b64encode.simps a2b_step3 [OF s(1) s(2) s(6)] e
    by simp
qed

lemma a2b_b64encode: "a2b_base64 (b64encode bs) 0 lc p out = Inr (out @ bs)"
proof (induction bs arbitrary: lc p out rule: b64encode.induct)
  case 1
  show ?case by simp
next
  case (2 a)
  show ?case by (rule a2b_one)
next
  case (3 a b)
  show ?case by (rule a2b_two)
next
  case (4 a b c rest)
  show ?case unfolding a2b_quad by (simp add: 4)
qed

lemma b64decode_b64encode: "b64decode (b64encode bs) = Inr bs"
  by (simp add: b64decode_def a2b_b64encode)



lemma b64encode_ascii: "list_all (\<lambda>c. (of_char c :: nat) < 128) (b64encode bs)"
proof (induction bs rule: b64encode.induct)
  case 1
  show ?case by simp
next
  case (2 a)
  show ?case
    using sextets [OF unat_byte [of a] unat_byte [of a] unat_byte [of a]]
    by (simp add: b64_char_ascii)
next
  case (3 a b)
  show ?case
    using sextets [OF unat_byte [of a] unat_byte [of b] unat_byte [of b]]
    by (simp add: b64_char_ascii)
next
  case (4 a b c rest)
  then show ?case
    using sextets [OF unat_byte [of a] unat_byte [of b] unat_byte [of c]]
    by (simp add: b64_char_ascii)
qed

subsection \<open>The chunks of a file\<close>

lemma py_range_concat:
  "0 < step \<Longrightarrow>
   concat (map (\<lambda>i. take step (drop i s)) (py_range i (length s) step)) = drop i s"
proof (induction i "length s" step rule: py_range.induct)
  case (1 i step)
  show ?case
  proof (cases "length s \<le> i")
    case True
    then show ?thesis by (simp add: py_range.simps [of i])
  next
    case False
    have "take step (drop i s) @ drop (i + step) s = drop i s"
      by (metis add.commute append_take_drop_id drop_drop)
    with False 1 show ?thesis by (simp add: py_range.simps [of i])
  qed
qed

lemma py_range_length:
  "0 < step \<Longrightarrow> length (py_range i stop step) = (stop - i + (step - 1)) div step"
proof (induction i stop step rule: py_range.induct)
  case (1 i stop step)
  show ?case
  proof (cases "stop \<le> i")
    case True
    with 1(2) show ?thesis by (simp add: py_range.simps [of i])
  next
    case False
    let ?d = "stop - i + (step - 1)"
    have d: "?d = (?d - step) + step" using False 1(2) by arith
    have "?d div step = Suc ((?d - step) div step)"
      by (subst d) (simp add: 1(2))
    moreover have "(?d - step) div step = (stop - (i + step) + (step - 1)) div step"
    proof (cases "i + step \<le> stop")
      case True
      then have "?d - step = stop - (i + step) + (step - 1)" using 1(2) by arith
      then show ?thesis by simp
    next
      case False
      then have "?d - step < step" "stop - (i + step) + (step - 1) < step" using 1(2) by arith+
      then show ?thesis by simp
    qed
    ultimately show ?thesis using False 1 by (simp add: py_range.simps [of i])
  qed
qed

lemma py_range_nth:
  "0 < step \<Longrightarrow> k < length (py_range i stop step) \<Longrightarrow> py_range i stop step ! k = i + k * step"
proof (induction i stop step arbitrary: k rule: py_range.induct)
  case (1 i stop step)
  show ?case
  proof (cases "stop \<le> i")
    case True
    with 1(3) show ?thesis by (simp add: py_range.simps [of i])
  next
    case False
    show ?thesis
    proof (cases k)
      case 0
      with False 1(2) show ?thesis by (simp add: py_range.simps [of i])
    next
      case (Suc k')
      with False 1(2,3) have "k' < length (py_range (i + step) stop step)"
        by (simp add: py_range.simps [of i])
      with False 1(2) have "py_range (i + step) stop step ! k' = i + step + k' * step"
        by (intro 1(1)) auto
      with False 1(2) Suc show ?thesis by (simp add: py_range.simps [of i])
    qed
  qed
qed



lemma b64_chunks_concat: "concat (b64_chunks data) = b64encode data"
  by (simp add: b64_chunks_def Let_def CHUNK_CHARS_def py_range_concat)

lemma b64_chunks_length: "length (b64_chunks data) = (length (b64encode data) + 179) div 180"
  by (simp add: b64_chunks_def Let_def CHUNK_CHARS_def py_range_length)

lemma b64_chunks_nth:
  assumes "k < length (b64_chunks data)"
  shows "b64_chunks data ! k = take 180 (drop (k * 180) (b64encode data))"
proof -
  from assms have "k < length (py_range 0 (length (b64encode data)) 180)"
    by (simp add: b64_chunks_def Let_def CHUNK_CHARS_def)
  then show ?thesis
    by (simp add: b64_chunks_def Let_def CHUNK_CHARS_def py_range_nth)
qed

lemma b64_chunks_nth_length:
  assumes "k < length (b64_chunks data)"
  shows "length (b64_chunks data ! k) = min 180 (length (b64encode data) - k * 180)"
    and "k * 180 < length (b64encode data)"
proof -
  show "length (b64_chunks data ! k) = min 180 (length (b64encode data) - k * 180)"
    by (simp add: b64_chunks_nth [OF assms])
  from assms have "Suc k \<le> (length (b64encode data) + 179) div 180"
    by (simp add: b64_chunks_length)
  then have "Suc k * 180 \<le> length (b64encode data) + 179"
    by (simp only: less_eq_div_iff_mult_less_eq [of 180, simplified])
  then show "k * 180 < length (b64encode data)" by simp
qed

lemma ceiling_div_180: "int ((n + 179) div 180) = \<lceil>real n / 180\<rceil>"
proof -
  let ?q = "(n + 179) div 180"
  have 1: "n \<le> 180 * ?q" and 2: "180 * ?q < n + 180"
    using div_mult_mod_eq [of "n + 179" 180] mod_less_divisor [of 180 "n + 179"] by linarith+
  have "real n / 180 \<le> real ?q" using 1 by (simp add: field_simps)
  moreover have "real ?q - 1 < real n / 180" using 2 by (simp add: field_simps)
  ultimately have "\<lceil>real n / 180\<rceil> = int ?q"
    by (intro ceiling_unique) simp_all
  then show ?thesis by simp
qed

lemma b64encode_length: "length (b64encode bs) = 4 * ((length bs + 2) div 3)"
proof (induction bs rule: b64encode.induct)
  case (4 a b c rest)
  have "(length rest + 5) div 3 = Suc ((length rest + 2) div 3)" by arith
  with 4 show ?case by (simp add: add.commute)
qed simp_all

lemma hello_b64: "b64encode hello_bytes = ''aGVsbG8gd29ybGQ=''"
  by (simp add: hello_bytes_def b64_char_def b64_alphabet_def)

lemma hello_chunks: "b64_chunks hello_bytes = [''aGVsbG8gd29ybGQ='']"
  by (simp add: b64_chunks_def hello_b64 CHUNK_CHARS_def py_range.simps [of 0] py_range.simps [of 180])

text \<open>
  C5. The number of chunks is the length of the base64 text divided by the chunk width
  of 180 and rounded up; no bytes give no chunk; when the length of the base64 text is
  a multiple of the width, the last chunk is 180 characters long, and no chunk is ever
  empty.
\<close>

theorem b64_chunks_count:
  "int (length (b64_chunks b)) = \<lceil>real (length (b64encode b)) / real CHUNK_CHARS\<rceil>
   \<and> CHUNK_CHARS = 180
   \<and> length (b64_chunks []) = 0
   \<and> (b64_chunks b \<noteq> [] \<and> CHUNK_CHARS dvd length (b64encode b)
        \<longrightarrow> length (last (b64_chunks b)) = CHUNK_CHARS)
   \<and> [] \<notin> set (b64_chunks b)"
proof (intro conjI impI)
  show "int (length (b64_chunks b)) = \<lceil>real (length (b64encode b)) / real CHUNK_CHARS\<rceil>"
    by (simp add: b64_chunks_length CHUNK_CHARS_def ceiling_div_180)
  show "CHUNK_CHARS = 180" by (simp add: CHUNK_CHARS_def)
  show "length (b64_chunks []) = 0" by (simp add: b64_chunks_length)
  show "length (last (b64_chunks b)) = CHUNK_CHARS"
    if h: "b64_chunks b \<noteq> [] \<and> CHUNK_CHARS dvd length (b64encode b)"
  proof -
    let ?n = "length (b64_chunks b)" and ?l = "length (b64encode b)"
    from h have k: "?n - 1 < ?n" by simp
    from h have "180 dvd ?l" by (simp add: CHUNK_CHARS_def)
    then obtain m where m: "?l = 180 * m" by (rule dvdE)
    have "?n = m" unfolding b64_chunks_length m by simp
    then have "?l - (?n - 1) * 180 = 180" using k m by (cases m) simp_all
    then show ?thesis
      using h b64_chunks_nth_length(1) [OF k]
      by (simp add: last_conv_nth CHUNK_CHARS_def)
  qed
  show "[] \<notin> set (b64_chunks b)"
  proof
    assume "[] \<in> set (b64_chunks b)"
    then obtain k where k: "k < length (b64_chunks b)" and e: "b64_chunks b ! k = []"
      by (auto simp: in_set_conv_nth)
    from b64_chunks_nth_length [OF k] e show False by simp
  qed
qed

theorem b64_chunks_count_witness:
  "length (b64encode (replicate 135 0)) = 180
   \<and> b64_chunks (replicate 135 0) \<noteq> []
   \<and> CHUNK_CHARS dvd length (b64encode (replicate 135 0))
   \<and> length (b64_chunks (replicate 135 0)) = 1
   \<and> length (last (b64_chunks (replicate 135 0))) = 180"
proof -
  have l: "length (b64encode (replicate 135 0)) = 180"
    by (simp add: b64encode_length)
  have n: "length (b64_chunks (replicate 135 0)) = 1"
    by (simp add: b64_chunks_length l)
  from n have ne: "b64_chunks (replicate 135 0) \<noteq> []" by auto
  have d: "CHUNK_CHARS dvd length (b64encode (replicate 135 0))"
    by (simp add: l CHUNK_CHARS_def)
  from b64_chunks_count [of "replicate 135 0"] ne d
  have "length (last (b64_chunks (replicate 135 0))) = CHUNK_CHARS" by blast
  with l n ne d show ?thesis by (simp add: CHUNK_CHARS_def)
qed

text \<open>
  C1. Joining the chunks of \<open>b\<close> in the order of their indices, encoding the text as ASCII
  and decoding it as base64, as \<^verbatim>\<open>fetchf\<close> does, gives \<open>b\<close> again, for every \<open>b\<close>.
\<close>

theorem chunk_roundtrip:
  "encode_ascii (concat (b64_chunks b)) = Inr (concat (b64_chunks b))
   \<and> b64decode (concat (b64_chunks b)) = Inr b"
  by (simp add: b64_chunks_concat encode_ascii_def b64encode_ascii b64decode_b64encode)

theorem chunk_roundtrip_witness:
  "b64_chunks hello_bytes = [''aGVsbG8gd29ybGQ='']
   \<and> b64decode ''aGVsbG8gd29ybGQ='' = Inr hello_bytes
   \<and> b64decode [] = Inr []"
proof -
  have "b64_chunks [] = []"
    by (simp add: b64_chunks_def py_range.simps [of 0])
  with chunk_roundtrip [of hello_bytes] chunk_roundtrip [of "[]"] show ?thesis
    by (simp add: hello_chunks)
qed

subsection \<open>The digest of the file \<open>hello\<close>\<close>

lemma sha256_rounds_append:
  "sha256_rounds (ks1 @ ks2) sw = sha256_rounds ks2 (sha256_rounds ks1 sw)"
  by (induction ks1 arbitrary: sw) simp_all

lemma hello_pad:
  "sha256_pad hello_bytes =
     [104, 101, 108, 108, 111, 32, 119, 111, 114, 108, 100, 128, 0, 0, 0, 0,
      0, 0, 0, 0,
      0, 0, 0, 0, 0, 0, 0, 0,
      0, 0, 0, 0, 0, 0, 0, 0,
      0, 0, 0, 0, 0, 0, 0, 0,
      0, 0, 0, 0, 0, 0, 0, 0,
      0, 0, 0, 0, 0, 0, 0, 0,
      0, 0, 0, 88]"
  by code_simp

lemma hello_words:
  "be_words
     [104, 101, 108, 108, 111, 32, 119, 111, 114, 108, 100, 128, 0, 0, 0, 0,
      0, 0, 0, 0,
      0, 0, 0, 0, 0, 0, 0, 0,
      0, 0, 0, 0, 0, 0, 0, 0,
      0, 0, 0, 0, 0, 0, 0, 0,
      0, 0, 0, 0, 0, 0, 0, 0,
      0, 0, 0, 0, 0, 0, 0, 0,
      0, 0, 0, 88]
   = [1751477356, 1864398703, 1919706240, 0, 0, 0, 0, 0, 0, 0, 0, 0, 0, 0,
    0, 88]"
  by simp

lemma hello_rounds_0:
  "sha256_rounds [1116352408, 1899447441, 3049323471, 3921009573, 961987163, 1508970993,
   2453635748, 2870763221]
     ([1779033703, 3144134277, 1013904242, 2773480762, 1359893119, 2600822924, 528734635,
      1541459225],
      [1751477356, 1864398703, 1919706240, 0, 0, 0, 0, 0, 0, 0, 0, 0, 0, 0,
       0, 88])
   = ([1273188332, 3489890728, 2253604035, 4102473222, 3815378845, 4060618432, 2638029203,
    1176929897],
      [0, 0, 0, 0, 0, 0, 0, 88, 927400503, 2261827633, 3552383243, 2017412994,
       714112237, 1261403337, 836867165, 2302036324])"
  by code_simp

lemma hello_rounds_1:
  "sha256_rounds [3624381080, 310598401, 607225278, 1426881987, 1925078388, 2162078206,
   2614888103, 3248222580]
     ([1273188332, 3489890728, 2253604035, 4102473222, 3815378845, 4060618432, 2638029203,
      1176929897],
      [0, 0, 0, 0, 0, 0, 0, 88, 927400503, 2261827633, 3552383243, 2017412994,
       714112237, 1261403337, 836867165, 2302036324])
   = ([2191411499, 3594398758, 1129641426, 338894133, 2829883844, 487844395, 1242186181,
    2717738354],
      [927400503, 2261827633, 3552383243, 2017412994, 714112237, 1261403337, 836867165,
       2302036324, 2138703578, 3245975866, 3152606805, 203088870, 2969439613, 1601066387,
       9018194, 133286548])"
  by code_simp

lemma hello_rounds_2:
  "sha256_rounds [3835390401, 4022224774, 264347078, 604807628, 770255983, 1249150122,
   1555081692, 1996064986]
     ([2191411499, 3594398758, 1129641426, 338894133, 2829883844, 487844395, 1242186181,
      2717738354],
      [927400503, 2261827633, 3552383243, 2017412994, 714112237, 1261403337, 836867165,
       2302036324, 2138703578, 3245975866, 3152606805, 203088870, 2969439613, 1601066387,
       9018194, 133286548])
   = ([2275728473, 2596719481, 4162001211, 1223913882, 397302236, 123612337, 1367773757,
    2392646698],
      [2138703578, 3245975866, 3152606805, 203088870, 2969439613, 1601066387, 9018194,
       133286548, 996140502, 1751474918, 3360557726, 112171813, 2465162455, 1677287002,
       3809896407, 2218515990])"
  by code_simp

lemma hello_rounds_3:
  "sha256_rounds [2554220882, 2821834349, 2952996808, 3210313671, 3336571891, 3584528711,
   113926993, 338241895]
     ([2275728473, 2596719481, 4162001211, 1223913882, 397302236, 123612337, 1367773757,
      2392646698],
      [2138703578, 3245975866, 3152606805, 203088870, 2969439613, 1601066387, 9018194,
       133286548, 996140502, 1751474918, 3360557726, 112171813, 2465162455, 1677287002,
       3809896407, 2218515990])
   = ([2257070732, 1684058906, 2814951624, 605127558, 3721060030, 1048000700, 92998254,
    377523603],
      [996140502, 1751474918, 3360557726, 112171813, 2465162455, 1677287002, 3809896407,
       2218515990, 4008487003, 2689593889, 4179144120, 346591769, 277107485, 1620304077,
       2198036457, 3584981304])"
  by code_simp

lemma hello_rounds_4:
  "sha256_rounds [666307205, 773529912, 1294757372, 1396182291, 1695183700, 1986661051,
   2177026350, 2456956037]
     ([2257070732, 1684058906, 2814951624, 605127558, 3721060030, 1048000700, 92998254,
      377523603],
      [996140502, 1751474918, 3360557726, 112171813, 2465162455, 1677287002, 3809896407,
       2218515990, 4008487003, 2689593889, 4179144120, 346591769, 277107485, 1620304077,
       2198036457, 3584981304])
   = ([1729529104, 3127468745, 359910156, 1291361557, 3226812406, 4040975408, 1673745891,
    2038604435],
      [4008487003, 2689593889, 4179144120, 346591769, 277107485, 1620304077, 2198036457,
       3584981304, 960431533, 4216003567, 3950378793, 1781962036, 586980568, 2842955051,
       1624193157, 3299645498])"
  by code_simp

lemma hello_rounds_5:
  "sha256_rounds [2730485921, 2820302411, 3259730800, 3345764771, 3516065817, 3600352804,
   4094571909, 275423344]
     ([1729529104, 3127468745, 359910156, 1291361557, 3226812406, 4040975408, 1673745891,
      2038604435],
      [4008487003, 2689593889, 4179144120, 346591769, 277107485, 1620304077, 2198036457,
       3584981304, 960431533, 4216003567, 3950378793, 1781962036, 586980568, 2842955051,
       1624193157, 3299645498])
   = ([3236521945, 3565167208, 2961816748, 3358903730, 3060361450, 1446230032, 2464910154,
    2166777286],
      [960431533, 4216003567, 3950378793, 1781962036, 586980568, 2842955051, 1624193157,
       3299645498, 289602989, 2964331993, 2565915503, 1914157086, 2731829146, 17799547,
       4229385994, 3267554070])"
  by code_simp

lemma hello_rounds_6:
  "sha256_rounds [430227734, 506948616, 659060556, 883997877, 958139571, 1322822218,
   1537002063, 1747873779]
     ([3236521945, 3565167208, 2961816748, 3358903730, 3060361450, 1446230032, 2464910154,
      2166777286],
      [960431533, 4216003567, 3950378793, 1781962036, 586980568, 2842955051, 1624193157,
       3299645498, 289602989, 2964331993, 2565915503, 1914157086, 2731829146, 17799547,
       4229385994, 3267554070])
   = ([2083636236, 1850142474, 545949439, 2511870266, 1512885130, 3346471957, 2166645241,
    774527532],
      [289602989, 2964331993, 2565915503, 1914157086, 2731829146, 17799547, 4229385994,
       3267554070, 1051612024, 4001830823, 38408030, 156502593, 2877754916, 4075777545,
       3584081959, 1169557185])"
  by code_simp

lemma hello_rounds_7:
  "sha256_rounds [1955562222, 2024104815, 2227730452, 2361852424, 2428436474, 2756734187,
   3204031479, 3329325298]
     ([2083636236, 1850142474, 545949439, 2511870266, 1512885130, 3346471957, 2166645241,
      774527532],
      [289602989, 2964331993, 2565915503, 1914157086, 2731829146, 17799547, 4229385994,
       3267554070, 1051612024, 4001830823, 38408030, 156502593, 2877754916, 4075777545,
       3584081959, 1169557185])
   = ([1329807698, 3622145923, 1757372261, 892188352, 1937153380, 3746437218, 1896160769,
    2265907408],
      [1051612024, 4001830823, 38408030, 156502593, 2877754916, 4075777545, 3584081959,
       1169557185, 435002708, 1939354874, 4226615122, 1939268733, 3384728523, 1595327516,
       2274668589, 4206986148])"
  by code_simp

lemma sha256_K_segments:
  "sha256_K =
     [1116352408, 1899447441, 3049323471, 3921009573, 961987163, 1508970993, 2453635748,
      2870763221]
     @ [3624381080, 310598401, 607225278, 1426881987, 1925078388, 2162078206, 2614888103,
      3248222580]
     @ [3835390401, 4022224774, 264347078, 604807628, 770255983, 1249150122, 1555081692,
      1996064986]
     @ [2554220882, 2821834349, 2952996808, 3210313671, 3336571891, 3584528711, 113926993,
      338241895]
     @ [666307205, 773529912, 1294757372, 1396182291, 1695183700, 1986661051, 2177026350,
      2456956037]
     @ [2730485921, 2820302411, 3259730800, 3345764771, 3516065817, 3600352804, 4094571909,
      275423344]
     @ [430227734, 506948616, 659060556, 883997877, 958139571, 1322822218, 1537002063,
      1747873779]
     @ [1955562222, 2024104815, 2227730452, 2361852424, 2428436474, 2756734187, 3204031479,
      3329325298]"
  by (simp add: sha256_K_def)

lemma hello_compress:
  "sha256_rounds sha256_K
     ([1779033703, 3144134277, 1013904242, 2773480762, 1359893119, 2600822924, 528734635,
      1541459225],
      [1751477356, 1864398703, 1919706240, 0, 0, 0, 0, 0, 0, 0, 0, 0, 0, 0,
       0, 88])
   = ([1329807698, 3622145923, 1757372261, 892188352, 1937153380, 3746437218, 1896160769,
    2265907408],
      [1051612024, 4001830823, 38408030, 156502593, 2877754916, 4075777545, 3584081959,
       1169557185, 435002708, 1939354874, 4226615122, 1939268733, 3384728523, 1595327516,
       2274668589, 4206986148])"
  by (simp only: sha256_K_segments sha256_rounds_append hello_rounds_0 hello_rounds_1
      hello_rounds_2 hello_rounds_3 hello_rounds_4 hello_rounds_5 hello_rounds_6 hello_rounds_7)

lemma hello_add:
  "map2 (+)
     ([1779033703, 3144134277, 1013904242, 2773480762, 1359893119, 2600822924, 528734635,
      1541459225] :: w32 list)
     [1329807698, 3622145923, 1757372261, 892188352, 1937153380, 3746437218, 1896160769,
      2265907408]
   = [3108841401, 2471312904, 2771276503, 3665669114, 3297046499, 2052292846, 2424895404,
    3807366633]"
  by code_simp

lemma hello_digest_hex:
  "hexdigest (concat (map be32
     [3108841401, 2471312904, 2771276503, 3665669114, 3297046499, 2052292846, 2424895404,
      3807366633]))
   = ''b94d27b9934d3e08a52e52d7da7dabfac484efe37a5380ee9088f7ace2efcde9''"
  by code_simp

lemma sha256_blocks_one:
  assumes "length m = 64"
  shows "sha256_blocks hs m = sha256_block hs m"
proof -
  have "sha256_blocks hs m = sha256_blocks (sha256_block hs m) []"
    using assms by (subst sha256_blocks.simps) simp
  also have "\<dots> = sha256_block hs m"
    by (subst sha256_blocks.simps) simp
  finally show ?thesis .
qed

lemma hello_sha256:
  "sha256_hex hello_bytes = ''b94d27b9934d3e08a52e52d7da7dabfac484efe37a5380ee9088f7ace2efcde9''"
proof -
  have "length (sha256_pad hello_bytes) = 64"
    by (simp add: hello_pad)
  then have "sha256_blocks sha256_H0 (sha256_pad hello_bytes)
      = sha256_block sha256_H0 (sha256_pad hello_bytes)"
    by (rule sha256_blocks_one)
  also have "\<dots> = [3108841401, 2471312904, 2771276503, 3665669114, 3297046499, 2052292846,
   2424895404, 3807366633]"
    by (simp only: sha256_block_def sha256_H0_def hello_pad hello_words hello_compress fst_conv
        hello_add)
  finally show ?thesis
    by (simp only: sha256_hex_def sha256_def hello_digest_hex)
qed

subsection \<open>The dispatcher\<close>

lemma split_on_nonempty: "split_on sep s \<noteq> []"
  by (induction s) (auto split: list.splits)

lemma label_nonempty:
  assumes "label_parts qname = [p0, p1]"
  shows "strip_chars ''.'' (take (length qname - length ZONE) qname) \<noteq> []"
proof
  assume "strip_chars ''.'' (take (length qname - length ZONE) qname) = []"
  with assms show False by (simp add: label_parts_def)
qed

lemma chunk_not_meta: "startswith p0 ''chunk'' \<Longrightarrow> p0 \<noteq> ''meta''"
  by (auto simp: startswith_def)

lemma resolve_meta:
  assumes "endswith (lower (q_name rq)) ZONE" and "q_type rq = ''TXT''"
    and "label_parts (lower (q_name rq)) = [''meta'', p1]"
  shows "resolve st rq h =
    (case f_bytes st (s_name p1) of
       Inl e \<Rightarrow> \<lparr>r_id = q_id rq, r_rcode = NXDOMAIN, r_rr = []\<rparr>
     | Inr data \<Rightarrow> \<lparr>r_id = q_id rq, r_rcode = NOERROR,
         r_rr = [TXT_RR (lower (q_name rq))
           (''chunks='' @ str_nat (length (b64_chunks data)) @ '';enc=base64;sha256=''
             @ sha256_hex data @ '';bytes='' @ str_nat (length data))]\<rparr>)"
  using assms label_nonempty [OF assms(3)] assms(3) [unfolded label_parts_def]
  by (simp add: resolve_def Let_def add_answer_def split: sum.split)

lemma resolve_chunk:
  assumes "endswith (lower (q_name rq)) ZONE" and "q_type rq = ''TXT''"
    and "label_parts (lower (q_name rq)) = [p0, p1]" and "startswith p0 ''chunk''"
  shows "resolve st rq h =
    (case py_int (drop 5 p0) of
       Inl e \<Rightarrow> \<lparr>r_id = q_id rq, r_rcode = NXDOMAIN, r_rr = []\<rparr>
     | Inr idx \<Rightarrow>
        (case f_bytes st (s_name p1) of
           Inl e \<Rightarrow> \<lparr>r_id = q_id rq, r_rcode = NXDOMAIN, r_rr = []\<rparr>
         | Inr data \<Rightarrow>
             if idx < 0 \<or> int (length (b64_chunks data)) \<le> idx
             then \<lparr>r_id = q_id rq, r_rcode = NXDOMAIN, r_rr = []\<rparr>
             else \<lparr>r_id = q_id rq, r_rcode = NOERROR,
                    r_rr = [TXT_RR (lower (q_name rq)) (b64_chunks data ! nat idx)]\<rparr>))"
  using assms label_nonempty [OF assms(3)] assms(3) [unfolded label_parts_def]
    chunk_not_meta [OF assms(4)]
  by (simp add: resolve_def Let_def add_answer_def split: sum.split)

lemma resolve_independent:
  assumes "q_name r1 = q_name r2" and "q_type r1 = q_type r2"
  shows "resolve st r1 h1 = (resolve st r2 h2)\<lparr>r_id := q_id r1\<rparr>"
  using assms by (simp add: resolve_def Let_def add_answer_def split: sum.split)

text \<open>
  C10. For a fixed store the status and the answers of a reply are determined by the
  query name and the record type: two requests that agree on both get the same
  status and the same answers, whatever their header id and handler are.
\<close>

theorem resolve_deterministic:
  assumes "q_name r1 = q_name r2" and "q_type r1 = q_type r2"
  shows "r_rcode (resolve st r1 h1) = r_rcode (resolve st r2 h2)
       \<and> r_rr (resolve st r1 h1) = r_rr (resolve st r2 h2)"
  by (simp add: resolve_independent [OF assms, of st h1 h2])

lemma f_bytes_cases:
  "f_bytes st n =
     (case st n of
        Some (File d) \<Rightarrow> Inr d
      | _ \<Rightarrow> (case st (n @ ''.bin'') of
          Some (File d) \<Rightarrow> Inr d
        | _ \<Rightarrow> (case st (n @ ''.txt'') of
            Some (File d) \<Rightarrow> Inr d
          | _ \<Rightarrow> Inl (FileNotFoundError n))))"
  by (simp add: f_bytes_def split: option.split entry.split)


lemma py_digits_chars:
  "py_digits acc prev s = Some n \<Longrightarrow> c \<in> set s \<Longrightarrow> is_digit c \<or> c = CHR ''_''"
  by (induction s arbitrary: acc prev) (auto split: if_splits)

lemma strip_keeps:
  assumes "c \<in> set s" and "\<not> P c"
  shows "c \<in> set (rev (dropWhile P (rev (dropWhile P s))))"
proof -
  have "c \<in> set (takeWhile P s) \<or> c \<in> set (dropWhile P s)"
    using assms(1) by (metis Un_iff set_append takeWhile_dropWhile_id)
  with assms(2) have 1: "c \<in> set (dropWhile P s)"
    by (auto dest: set_takeWhileD)
  let ?r = "rev (dropWhile P s)"
  from 1 have "c \<in> set ?r" by simp
  then have "c \<in> set (takeWhile P ?r) \<or> c \<in> set (dropWhile P ?r)"
    by (metis Un_iff set_append takeWhile_dropWhile_id)
  with assms(2) have "c \<in> set (dropWhile P ?r)"
    by (auto dest: set_takeWhileD)
  then show ?thesis by simp
qed

lemma py_int_error: "py_int s = Inl e \<Longrightarrow> e = ValueError"
  by (auto simp: py_int_def split: list.splits if_splits option.splits)

lemma py_int_chars:
  assumes "py_int s = Inr i" and "c \<in> set s"
  shows "is_digit c \<or> c = CHR ''+'' \<or> c = CHR ''-'' \<or> c = CHR ''_'' \<or> int_isspace c"
proof (rule ccontr)
  assume n: "\<not> (is_digit c \<or> c = CHR ''+'' \<or> c = CHR ''-'' \<or> c = CHR ''_''
      \<or> int_isspace c)"
  with assms(2) have "c \<in> set (rev (dropWhile int_isspace (rev (dropWhile int_isspace s))))"
    by (intro strip_keeps) blast+
  with assms(1) n show False
    by (auto simp: py_int_def split: list.splits if_splits option.splits dest: py_digits_chars)
qed

lemma py_int_empty: "py_int [] = Inl ValueError"
  by (simp add: py_int_def)

text \<open>
  C3, as amended. For an in-zone \<^verbatim>\<open>TXT\<close> query whose label has the two parts
  \<open>chunk<X>\<close> and a name: when \<^verbatim>\<open>int(X)\<close> raises, which it does for the empty \<open>X\<close> and for
  every \<open>X\<close> with a character that is no digit, no sign, no underscore and none of the
  whitespace characters that \<^verbatim>\<open>int\<close> skips, the reply is \<^verbatim>\<open>NXDOMAIN\<close> without an answer; so
  it is when \<open>X\<close> denotes a negative number.
\<close>

theorem chunk_index_rejected:
  assumes "endswith (lower (q_name rq)) ZONE" and "q_type rq = ''TXT''"
    and "label_parts (lower (q_name rq)) = [''chunk'' @ X, p1]"
  shows "(X = [] \<longrightarrow> py_int X = Inl ValueError)
     \<and> ((\<exists>c \<in> set X. \<not> is_digit c \<and> c \<noteq> CHR ''+'' \<and> c \<noteq> CHR ''-'' \<and> c \<noteq> CHR ''_''
            \<and> \<not> int_isspace c) \<longrightarrow> py_int X = Inl ValueError)
     \<and> ((\<exists>e. py_int X = Inl e) \<longrightarrow>
           r_rcode (resolve st rq h) = NXDOMAIN \<and> r_rr (resolve st rq h) = [])
     \<and> ((\<exists>i. py_int X = Inr i \<and> i < 0) \<longrightarrow>
           r_rcode (resolve st rq h) = NXDOMAIN \<and> r_rr (resolve st rq h) = [])"
proof (intro conjI impI)
  have sw: "startswith (''chunk'' @ X) ''chunk''" by (simp add: startswith_def)
  note r = resolve_chunk [OF assms sw, of st h]
  show "py_int X = Inl ValueError" if "X = []"
    using that by (simp add: py_int_empty)
  show "py_int X = Inl ValueError"
    if "\<exists>c \<in> set X. \<not> is_digit c \<and> c \<noteq> CHR ''+'' \<and> c \<noteq> CHR ''-'' \<and> c \<noteq> CHR ''_''
            \<and> \<not> int_isspace c"
  proof (cases "py_int X")
    case (Inl e)
    then show ?thesis using py_int_error by blast
  next
    case (Inr i)
    with that py_int_chars show ?thesis by blast
  qed
  show "r_rcode (resolve st rq h) = NXDOMAIN" if "\<exists>e. py_int X = Inl e"
    using that r by auto
  show "r_rr (resolve st rq h) = []" if "\<exists>e. py_int X = Inl e"
    using that r by auto
  show "r_rcode (resolve st rq h) = NXDOMAIN" if "\<exists>i. py_int X = Inr i \<and> i < 0"
    using that r by (auto split: sum.splits)
  show "r_rr (resolve st rq h) = []" if "\<exists>i. py_int X = Inr i \<and> i < 0"
    using that r by (auto split: sum.splits)
qed

text \<open>
  C7. For a stored file with the bytes \<open>b\<close> and a chunk query whose index parses to
  \<open>i\<close>: an index at or above the number of chunks (and a negative one) gets
  \<^verbatim>\<open>NXDOMAIN\<close> without an answer, so every index does when \<open>b\<close> is empty; an index
  below the number of chunks gets \<^verbatim>\<open>NOERROR\<close> with one answer, the chunk at \<open>i\<close>, which
  is the slice of the base64 text from \<open>180 * i\<close>.
\<close>

theorem chunk_served:
  assumes "endswith (lower (q_name rq)) ZONE" and "q_type rq = ''TXT''"
    and "label_parts (lower (q_name rq)) = [p0, p1]" and "startswith p0 ''chunk''"
    and "py_int (drop 5 p0) = Inr i" and "f_bytes st (s_name p1) = Inr b"
  shows "(int (length (b64_chunks b)) \<le> i \<or> i < 0 \<longrightarrow>
            r_rcode (resolve st rq h) = NXDOMAIN \<and> r_rr (resolve st rq h) = [])
     \<and> (b = [] \<longrightarrow> r_rcode (resolve st rq h) = NXDOMAIN \<and> r_rr (resolve st rq h) = [])
     \<and> (0 \<le> i \<and> i < int (length (b64_chunks b)) \<longrightarrow>
            r_rcode (resolve st rq h) = NOERROR
          \<and> r_rr (resolve st rq h) = [TXT_RR (lower (q_name rq)) (b64_chunks b ! nat i)]
          \<and> b64_chunks b ! nat i
              = take CHUNK_CHARS (drop (nat i * CHUNK_CHARS) (b64encode b)))"
proof -
  note r = resolve_chunk [OF assms(1-4), of st h, unfolded assms(5,6), simplified]
  have e: "length (b64_chunks []) = 0" by (simp add: b64_chunks_length)
  have n: "b64_chunks b ! nat i = take CHUNK_CHARS (drop (nat i * CHUNK_CHARS) (b64encode b))"
    if "0 \<le> i \<and> i < int (length (b64_chunks b))"
    using that by (intro b64_chunks_nth [folded CHUNK_CHARS_def]) linarith
  show ?thesis
    using r e n by auto
qed


lemmas query_eval =
  lower_def lower_char_def endswith_def startswith_def ZONE_def label_parts_def
  strip_chars_def s_name_def f_bytes_def

lemmas int_eval = py_int_def int_isspace_def is_digit_def digit_val_def

lemma hello_lookup: "f_bytes hello_store (s_name ''hello'') = Inr hello_bytes"
  by (simp add: query_eval hello_store_def)

lemma nofile_lookup: "f_bytes hello_store (s_name ''nofile'') = Inl (FileNotFoundError ''nofile'')"
  by (simp add: query_eval hello_store_def)

text \<open>
  C7 at the file \<open>hello\<close>: index 0 is served, index 1 is out of range, and an empty
  file has no chunk 0.
\<close>

theorem chunk_served_witness:
  "r_rcode (resolve hello_store \<lparr>q_id = 1, q_name = ''chunk0.hello.lab.'', q_type = ''TXT''\<rparr> ())
     = NOERROR
   \<and> map rr_rdata
        (r_rr (resolve hello_store \<lparr>q_id = 1, q_name = ''chunk0.hello.lab.'', q_type = ''TXT''\<rparr> ()))
     = [''aGVsbG8gd29ybGQ='']
   \<and> r_rcode (resolve hello_store \<lparr>q_id = 1, q_name = ''chunk1.hello.lab.'', q_type = ''TXT''\<rparr> ())
     = NXDOMAIN
   \<and> r_rr (resolve hello_store \<lparr>q_id = 1, q_name = ''chunk1.hello.lab.'', q_type = ''TXT''\<rparr> ())
     = []
   \<and> r_rcode (resolve (\<lambda>p. if p = ''e.bin'' then Some (File []) else None)
        \<lparr>q_id = 1, q_name = ''chunk0.e.lab.'', q_type = ''TXT''\<rparr> ()) = NXDOMAIN"
proof -
  let ?q0 = "\<lparr>q_id = 1, q_name = ''chunk0.hello.lab.'', q_type = ''TXT''\<rparr>"
  let ?q1 = "\<lparr>q_id = 1, q_name = ''chunk1.hello.lab.'', q_type = ''TXT''\<rparr>"
  let ?qe = "\<lparr>q_id = 1, q_name = ''chunk0.e.lab.'', q_type = ''TXT''\<rparr>"
  let ?se = "\<lambda>p. if p = ''e.bin'' then Some (File []) else None"
  have z0: "endswith (lower (q_name ?q0)) ZONE" and t0: "q_type ?q0 = ''TXT''"
    and p0: "label_parts (lower (q_name ?q0)) = [''chunk0'', ''hello'']"
    and z1: "endswith (lower (q_name ?q1)) ZONE" and t1: "q_type ?q1 = ''TXT''"
    and p1: "label_parts (lower (q_name ?q1)) = [''chunk1'', ''hello'']"
    and ze: "endswith (lower (q_name ?qe)) ZONE" and te: "q_type ?qe = ''TXT''"
    and pe: "label_parts (lower (q_name ?qe)) = [''chunk0'', ''e'']"
    by (simp_all add: query_eval)
  have s0: "startswith ''chunk0'' ''chunk''" and s1: "startswith ''chunk1'' ''chunk''"
    by (simp_all add: startswith_def)
  have i0: "py_int (drop 5 ''chunk0'') = Inr 0" and i1: "py_int (drop 5 ''chunk1'') = Inr 1"
    by (simp_all add: int_eval)
  have fe: "f_bytes ?se (s_name ''e'') = Inr []"
    by (simp add: query_eval)
  from chunk_served [OF z0 t0 p0 s0 i0 hello_lookup, of "()"]
       chunk_served [OF z1 t1 p1 s1 i1 hello_lookup, of "()"]
       chunk_served [OF ze te pe s0 i0 fe, of "()"]
  show ?thesis
    by (simp add: hello_chunks TXT_RR_def)
qed

text \<open>
  C3, the amended claim at the indices \<open>chunk\<close>, \<open>chunkx1\<close> and \<open>chunk-1\<close> of the file
  \<open>hello\<close>, and at the index \<open>0\<close> after the separator character 28, which \<^verbatim>\<open>int\<close> does
  not skip.
\<close>

theorem chunk_index_rejected_witness:
  "label_parts (lower ''chunk.hello.lab.'') = [''chunk'' @ [], ''hello'']
   \<and> r_rcode (resolve hello_store \<lparr>q_id = 1, q_name = ''chunk.hello.lab.'', q_type = ''TXT''\<rparr> ())
       = NXDOMAIN
   \<and> label_parts (lower ''chunkx1.hello.lab.'') = [''chunk'' @ ''x1'', ''hello'']
   \<and> r_rcode (resolve hello_store \<lparr>q_id = 1, q_name = ''chunkx1.hello.lab.'', q_type = ''TXT''\<rparr> ())
       = NXDOMAIN
   \<and> label_parts (lower ''chunk-1.hello.lab.'') = [''chunk'' @ ''-1'', ''hello'']
   \<and> py_int ''-1'' = Inr (- 1)
   \<and> r_rcode (resolve hello_store \<lparr>q_id = 1, q_name = ''chunk-1.hello.lab.'', q_type = ''TXT''\<rparr> ())
       = NXDOMAIN
   \<and> label_parts (lower (''chunk'' @ CHR 0x1C # ''0.hello.lab.''))
       = [''chunk'' @ [CHR 0x1C, CHR ''0''], ''hello'']
   \<and> py_int [CHR 0x1C, CHR ''0''] = Inl ValueError
   \<and> r_rcode (resolve hello_store
         \<lparr>q_id = 1, q_name = ''chunk'' @ CHR 0x1C # ''0.hello.lab.'', q_type = ''TXT''\<rparr> ())
       = NXDOMAIN"
proof -
  let ?qa = "\<lparr>q_id = 1, q_name = ''chunk.hello.lab.'', q_type = ''TXT''\<rparr>"
  let ?qb = "\<lparr>q_id = 1, q_name = ''chunkx1.hello.lab.'', q_type = ''TXT''\<rparr>"
  let ?qc = "\<lparr>q_id = 1, q_name = ''chunk-1.hello.lab.'', q_type = ''TXT''\<rparr>"
  let ?qd = "\<lparr>q_id = 1, q_name = ''chunk'' @ CHR 0x1C # ''0.hello.lab.'', q_type = ''TXT''\<rparr>"
  have za: "endswith (lower (q_name ?qa)) ZONE" and ta: "q_type ?qa = ''TXT''"
    and pa: "label_parts (lower (q_name ?qa)) = [''chunk'' @ [], ''hello'']"
    and zb: "endswith (lower (q_name ?qb)) ZONE" and tb: "q_type ?qb = ''TXT''"
    and pb: "label_parts (lower (q_name ?qb)) = [''chunk'' @ ''x1'', ''hello'']"
    and zc: "endswith (lower (q_name ?qc)) ZONE" and tc: "q_type ?qc = ''TXT''"
    and pc: "label_parts (lower (q_name ?qc)) = [''chunk'' @ ''-1'', ''hello'']"
    and zd: "endswith (lower (q_name ?qd)) ZONE" and td: "q_type ?qd = ''TXT''"
    and pd: "label_parts (lower (q_name ?qd)) = [''chunk'' @ [CHR 0x1C, CHR ''0''], ''hello'']"
    by (simp_all add: query_eval)
  have xd: "\<exists>c \<in> set [CHR 0x1C, CHR ''0'']. \<not> is_digit c \<and> c \<noteq> CHR ''+'' \<and> c \<noteq> CHR ''-''
            \<and> c \<noteq> CHR ''_'' \<and> \<not> int_isspace c"
    by (simp add: int_eval)
  have ed: "py_int [CHR 0x1C, CHR ''0''] = Inl ValueError"
    using chunk_index_rejected [OF zd td pd, of hello_store "()"] xd by blast
  have xb: "\<exists>c \<in> set ''x1''. \<not> is_digit c \<and> c \<noteq> CHR ''+'' \<and> c \<noteq> CHR ''-'' \<and> c \<noteq> CHR ''_''
            \<and> \<not> int_isspace c"
    by (simp add: int_eval)
  have xc: "py_int ''-1'' = Inr (- 1)"
    by (simp add: int_eval)
  have ea: "\<exists>e. py_int [] = Inl e"
    using chunk_index_rejected [OF za ta pa, of hello_store "()"] by blast
  have eb: "\<exists>e. py_int ''x1'' = Inl e"
    using chunk_index_rejected [OF zb tb pb, of hello_store "()"] xb by blast
  have ec: "\<exists>i. py_int ''-1'' = Inr i \<and> i < 0"
    using xc by simp
  have "r_rcode (resolve hello_store ?qa ()) = NXDOMAIN"
    using chunk_index_rejected [OF za ta pa, of hello_store "()"] ea by blast
  moreover have "r_rcode (resolve hello_store ?qb ()) = NXDOMAIN"
    using chunk_index_rejected [OF zb tb pb, of hello_store "()"] eb by blast
  moreover have "r_rcode (resolve hello_store ?qc ()) = NXDOMAIN"
    using chunk_index_rejected [OF zc tc pc, of hello_store "()"] ec by blast
  moreover have "r_rcode (resolve hello_store ?qd ()) = NXDOMAIN"
    using chunk_index_rejected [OF zd td pd, of hello_store "()"] ed by blast
  ultimately show ?thesis
    using pa pb pc pd xc ed by simp
qed

text \<open>
  C3 as stated fails: \<open>+0\<close> is no plain digit string, \<^verbatim>\<open>int("+0")\<close> is 0, and the query
  \<open>chunk+0.hello.lab.\<close> is answered with chunk 0 of the file.
\<close>

theorem chunk_index_rejected_counterexample:
  "endswith (lower ''chunk+0.hello.lab.'') ZONE
   \<and> label_parts (lower ''chunk+0.hello.lab.'') = [''chunk+0'', ''hello'']
   \<and> \<not> list_all is_digit ''+0''
   \<and> resolve hello_store \<lparr>q_id = 1, q_name = ''chunk+0.hello.lab.'', q_type = ''TXT''\<rparr> ()
       = \<lparr>r_id = 1, r_rcode = NOERROR,
          r_rr = [\<lparr>rr_name = ''chunk+0.hello.lab.'', rr_type = ''TXT'', rr_ttl = 60,
                   rr_rdata = ''aGVsbG8gd29ybGQ=''\<rparr>]\<rparr>"
proof -
  let ?q = "\<lparr>q_id = 1, q_name = ''chunk+0.hello.lab.'', q_type = ''TXT''\<rparr>"
  have z: "endswith (lower (q_name ?q)) ZONE" and t: "q_type ?q = ''TXT''"
    and p: "label_parts (lower (q_name ?q)) = [''chunk+0'', ''hello'']"
    by (simp_all add: query_eval)
  have s: "startswith ''chunk+0'' ''chunk''" by (simp add: startswith_def)
  have i: "py_int ''+0'' = Inr 0" by (simp add: int_eval)
  have d: "\<not> list_all is_digit ''+0''" by (simp add: is_digit_def)
  have l: "lower ''chunk+0.hello.lab.'' = ''chunk+0.hello.lab.''"
    by (simp add: lower_def lower_char_def)
  from resolve_chunk [OF z t p s, of hello_store "()"] z p d show ?thesis
    by (simp add: i hello_lookup hello_chunks TXT_RR_def TTL_def l)
qed

text \<open>
  C10 at two requests for \<open>meta.hello.lab.\<close> with different ids and handlers.
\<close>

theorem resolve_deterministic_witness:
  "r_rcode (resolve hello_store \<lparr>q_id = 1, q_name = ''meta.hello.lab.'', q_type = ''TXT''\<rparr> ())
     = r_rcode (resolve hello_store \<lparr>q_id = 2, q_name = ''meta.hello.lab.'', q_type = ''TXT''\<rparr> True)
   \<and> r_rr (resolve hello_store \<lparr>q_id = 1, q_name = ''meta.hello.lab.'', q_type = ''TXT''\<rparr> ())
     = r_rr (resolve hello_store \<lparr>q_id = 2, q_name = ''meta.hello.lab.'', q_type = ''TXT''\<rparr> True)"
  using resolve_deterministic [of "\<lparr>q_id = 1, q_name = ''meta.hello.lab.'', q_type = ''TXT''\<rparr>"
      "\<lparr>q_id = 2, q_name = ''meta.hello.lab.'', q_type = ''TXT''\<rparr>" hello_store "()" True]
  by simp

text \<open>
  C6. The lookup returns the bytes of the first regular file among \<open>n\<close>, \<open>n.bin\<close> and
  \<open>n.txt\<close>, in this order, and fails when none of the three is one; then the meta
  query and the chunk query for a name that sanitises to \<open>n\<close> both get \<^verbatim>\<open>NXDOMAIN\<close>
  without an answer.
\<close>

theorem lookup_order:
  "f_bytes st n =
     (case st n of
        Some (File d) \<Rightarrow> Inr d
      | _ \<Rightarrow> (case st (n @ ''.bin'') of
          Some (File d) \<Rightarrow> Inr d
        | _ \<Rightarrow> (case st (n @ ''.txt'') of
            Some (File d) \<Rightarrow> Inr d
          | _ \<Rightarrow> Inl (FileNotFoundError n))))
   \<and> (endswith (lower (q_name rq)) ZONE \<and> q_type rq = ''TXT''
        \<and> label_parts (lower (q_name rq)) = [kind, raw]
        \<and> (kind = ''meta'' \<or> startswith kind ''chunk'')
        \<and> (\<forall>d. st (s_name raw) \<noteq> Some (File d))
        \<and> (\<forall>d. st (s_name raw @ ''.bin'') \<noteq> Some (File d))
        \<and> (\<forall>d. st (s_name raw @ ''.txt'') \<noteq> Some (File d))
      \<longrightarrow> r_rcode (resolve st rq h) = NXDOMAIN \<and> r_rr (resolve st rq h) = [])"
proof (intro conjI impI)
  show "f_bytes st n =
     (case st n of
        Some (File d) \<Rightarrow> Inr d
      | _ \<Rightarrow> (case st (n @ ''.bin'') of
          Some (File d) \<Rightarrow> Inr d
        | _ \<Rightarrow> (case st (n @ ''.txt'') of
            Some (File d) \<Rightarrow> Inr d
          | _ \<Rightarrow> Inl (FileNotFoundError n))))"
    by (rule f_bytes_cases)
next
  assume a: "endswith (lower (q_name rq)) ZONE \<and> q_type rq = ''TXT''
        \<and> label_parts (lower (q_name rq)) = [kind, raw]
        \<and> (kind = ''meta'' \<or> startswith kind ''chunk'')
        \<and> (\<forall>d. st (s_name raw) \<noteq> Some (File d))
        \<and> (\<forall>d. st (s_name raw @ ''.bin'') \<noteq> Some (File d))
        \<and> (\<forall>d. st (s_name raw @ ''.txt'') \<noteq> Some (File d))"
  then have f: "f_bytes st (s_name raw) = Inl (FileNotFoundError (s_name raw))"
    by (simp add: f_bytes_cases split: option.split entry.split)
  from a have z: "endswith (lower (q_name rq)) ZONE" and t: "q_type rq = ''TXT''"
    and p: "label_parts (lower (q_name rq)) = [kind, raw]" by simp_all
  from a consider "kind = ''meta''" | "startswith kind ''chunk''" by blast
  then have "r_rcode (resolve st rq h) = NXDOMAIN \<and> r_rr (resolve st rq h) = []"
  proof cases
    case 1
    with resolve_meta [OF z t p [unfolded 1], of st h] f show ?thesis by simp
  next
    case 2
    with resolve_chunk [OF z t p 2, of st h] f show ?thesis by (simp split: sum.split)
  qed
  then show "r_rcode (resolve st rq h) = NXDOMAIN" and "r_rr (resolve st rq h) = []"
    by simp_all
qed


text \<open>
  C6 at a store where \<open>hello\<close> is a directory and \<open>hello.txt\<close> a file, and at the name
  \<open>nofile\<close>, which the store of \<open>hello\<close> does not have.
\<close>

theorem lookup_order_witness:
  "f_bytes (\<lambda>p. if p = ''hello.txt'' then Some (File hello_bytes)
                 else if p = ''hello'' then Some Dir else None) ''hello'' = Inr hello_bytes
   \<and> f_bytes hello_store ''nofile'' = Inl (FileNotFoundError ''nofile'')
   \<and> r_rcode (resolve hello_store \<lparr>q_id = 1, q_name = ''meta.nofile.lab.'', q_type = ''TXT''\<rparr> ())
       = NXDOMAIN
   \<and> r_rr (resolve hello_store \<lparr>q_id = 1, q_name = ''meta.nofile.lab.'', q_type = ''TXT''\<rparr> ())
       = []
   \<and> r_rcode (resolve hello_store \<lparr>q_id = 1, q_name = ''chunk0.nofile.lab.'', q_type = ''TXT''\<rparr> ())
       = NXDOMAIN
   \<and> r_rr (resolve hello_store \<lparr>q_id = 1, q_name = ''chunk0.nofile.lab.'', q_type = ''TXT''\<rparr> ())
       = []"
proof -
  let ?st = "\<lambda>p. if p = ''hello.txt'' then Some (File hello_bytes)
                 else if p = ''hello'' then Some Dir else None"
  let ?qm = "\<lparr>q_id = 1, q_name = ''meta.nofile.lab.'', q_type = ''TXT''\<rparr>"
  let ?qc = "\<lparr>q_id = 1, q_name = ''chunk0.nofile.lab.'', q_type = ''TXT''\<rparr>"
  have 1: "f_bytes ?st ''hello'' = Inr hello_bytes"
    using lookup_order [where st = ?st and n = "''hello''", THEN conjunct1] by simp
  have 2: "f_bytes hello_store ''nofile'' = Inl (FileNotFoundError ''nofile'')"
    using lookup_order [where st = hello_store and n = "''nofile''", THEN conjunct1]
    by (simp add: hello_store_def)
  have m: "endswith (lower (q_name ?qm)) ZONE \<and> q_type ?qm = ''TXT''
        \<and> label_parts (lower (q_name ?qm)) = [''meta'', ''nofile'']
        \<and> (''meta'' = ''meta'' \<or> startswith ''meta'' ''chunk'')
        \<and> (\<forall>d. hello_store (s_name ''nofile'') \<noteq> Some (File d))
        \<and> (\<forall>d. hello_store (s_name ''nofile'' @ ''.bin'') \<noteq> Some (File d))
        \<and> (\<forall>d. hello_store (s_name ''nofile'' @ ''.txt'') \<noteq> Some (File d))"
    by (simp add: query_eval hello_store_def)
  have c: "endswith (lower (q_name ?qc)) ZONE \<and> q_type ?qc = ''TXT''
        \<and> label_parts (lower (q_name ?qc)) = [''chunk0'', ''nofile'']
        \<and> (''chunk0'' = ''meta'' \<or> startswith ''chunk0'' ''chunk'')
        \<and> (\<forall>d. hello_store (s_name ''nofile'') \<noteq> Some (File d))
        \<and> (\<forall>d. hello_store (s_name ''nofile'' @ ''.bin'') \<noteq> Some (File d))
        \<and> (\<forall>d. hello_store (s_name ''nofile'' @ ''.txt'') \<noteq> Some (File d))"
    by (simp add: query_eval hello_store_def)
  have 3: "r_rcode (resolve hello_store ?qm ()) = NXDOMAIN \<and> r_rr (resolve hello_store ?qm ()) = []"
    using lookup_order [where st = hello_store and rq = ?qm and kind = "''meta''"
        and raw = "''nofile''" and h = "()"] m by blast
  have 4: "r_rcode (resolve hello_store ?qc ()) = NXDOMAIN \<and> r_rr (resolve hello_store ?qc ()) = []"
    using lookup_order [where st = hello_store and rq = ?qc and kind = "''chunk0''"
        and raw = "''nofile''" and h = "()"] c by blast
  from 1 2 3 4 show ?thesis by blast
qed

subsection \<open>The fetch\<close>

lemma py_int_zero: "py_int ''0'' = Inr 0"
  by (simp add: int_eval)

lemma meta_fields_fails:
  "(\<exists>e. meta_fields m = Inl e) \<longleftrightarrow>
     parse_meta m ''chunks'' = None
   \<or> (\<exists>v. parse_meta m ''chunks'' = Some v \<and> py_int v = Inl ValueError)
   \<or> (\<exists>v. parse_meta m ''bytes'' = Some v \<and> py_int v = Inl ValueError)"
  by (auto simp: meta_fields_def Let_def py_int_zero split: option.splits sum.splits
      dest: py_int_error)

lemma meta_fields_defaults:
  assumes "meta_fields m = Inr (n, sha, len)"
  shows "parse_meta m ''sha256'' = None \<longrightarrow> sha = []"
    and "parse_meta m ''bytes'' = None \<longrightarrow> len = 0"
  using assms
  by (auto simp: meta_fields_def Let_def py_int_zero split: option.splits sum.splits)

lemma meta_fields_absent:
  "parse_meta m ''chunks'' = None \<Longrightarrow> meta_fields m = Inl (KeyError ''chunks'')"
  by (simp add: meta_fields_def)

lemma fetch_chunks_fails:
  assumes "i \<in> set ixs"
    and "queryt send (''chunk'' @ str_nat i @ ''.'' @ name @ ''.'' @ ZONE_client) = Inl e"
  shows "\<exists>e'. fetch_chunks send name ixs acc = Inl e'"
  using assms
proof (induction ixs arbitrary: acc)
  case Nil
  then show ?case by simp
next
  case (Cons j ixs)
  show ?case
  proof (cases "queryt send (''chunk'' @ str_nat j @ ''.'' @ name @ ''.'' @ ZONE_client)")
    case (Inl e')
    then show ?thesis by simp
  next
    case (Inr c)
    with Cons.prems have "i \<in> set ixs" by auto
    with Cons.IH Cons.prems(2) Inr show ?thesis by simp
  qed
qed

lemma fetchf_meta_fail:
  "queryt send (''meta.'' @ name @ ''.'' @ ZONE_client) = Inl e \<Longrightarrow>
   fetchf send name out fs = (Inl e, fs)"
  by (simp add: fetchf_def)

lemma fetchf_fields_fail:
  "queryt send (''meta.'' @ name @ ''.'' @ ZONE_client) = Inr m \<Longrightarrow>
   meta_fields m = Inl e \<Longrightarrow>
   fetchf send name out fs = (Inl e, fs)"
  by (simp add: fetchf_def)

lemma fetchf_chunk_fail:
  "queryt send (''meta.'' @ name @ ''.'' @ ZONE_client) = Inr m \<Longrightarrow>
   meta_fields m = Inr (n, sha, len) \<Longrightarrow>
   fetch_chunks send name [0..<nat n] [] = Inl e \<Longrightarrow>
   fetchf send name out fs = (Inl e, fs)"
  by (simp add: fetchf_def)

lemma fetchf_ascii_fail:
  "queryt send (''meta.'' @ name @ ''.'' @ ZONE_client) = Inr m \<Longrightarrow>
   meta_fields m = Inr (n, sha, len) \<Longrightarrow>
   fetch_chunks send name [0..<nat n] [] = Inr chunks \<Longrightarrow>
   encode_ascii (concat chunks) = Inl e \<Longrightarrow>
   fetchf send name out fs = (Inl e, fs)"
  by (simp add: fetchf_def)

lemma fetchf_decode_fail:
  "queryt send (''meta.'' @ name @ ''.'' @ ZONE_client) = Inr m \<Longrightarrow>
   meta_fields m = Inr (n, sha, len) \<Longrightarrow>
   fetch_chunks send name [0..<nat n] [] = Inr chunks \<Longrightarrow>
   encode_ascii (concat chunks) = Inr joined \<Longrightarrow>
   b64decode joined = Inl e \<Longrightarrow>
   fetchf send name out fs = (Inl e, fs)"
  by (simp add: fetchf_def)

lemma fetchf_decoded:
  "queryt send (''meta.'' @ name @ ''.'' @ ZONE_client) = Inr m \<Longrightarrow>
   meta_fields m = Inr (n, sha, len) \<Longrightarrow>
   fetch_chunks send name [0..<nat n] [] = Inr chunks \<Longrightarrow>
   encode_ascii (concat chunks) = Inr joined \<Longrightarrow>
   b64decode joined = Inr data \<Longrightarrow>
   fetchf send name out fs =
     (if len \<noteq> 0 \<and> int (length data) \<noteq> len then
        (Inl (RuntimeError (''size mismatch: got '' @ str_nat (length data)
                            @ '' expected '' @ str_int len)), fs)
      else if sha \<noteq> [] \<and> sha256_hex data \<noteq> sha then
        (Inl (RuntimeError ''sha256 mismatch (data corrupted or wrong order)''), fs)
      else (Inr out, fs(out \<mapsto> data)))"
  by (simp add: fetchf_def)

lemma fetchf_result:
  "(\<exists>e. fetchf send name out fs = (Inl e, fs))
   \<or> (\<exists>data. fetchf send name out fs = (Inr out, fs(out \<mapsto> data)))"
proof (cases "queryt send (''meta.'' @ name @ ''.'' @ ZONE_client)")
  case (Inl e)
  then show ?thesis by (simp add: fetchf_meta_fail)
next
  case m: (Inr m)
  show ?thesis
  proof (cases "meta_fields m")
    case (Inl e)
    with m show ?thesis by (simp add: fetchf_fields_fail)
  next
    case (Inr t)
    then obtain n sha len where f: "meta_fields m = Inr (n, sha, len)"
      by (cases t) auto
    show ?thesis
    proof (cases "fetch_chunks send name [0..<nat n] []")
      case (Inl e)
      with m f show ?thesis by (simp add: fetchf_chunk_fail)
    next
      case c: (Inr chunks)
      show ?thesis
      proof (cases "encode_ascii (concat chunks)")
        case (Inl e)
        with m f c show ?thesis by (simp add: fetchf_ascii_fail)
      next
        case j: (Inr joined)
        show ?thesis
        proof (cases "b64decode joined")
          case (Inl e)
          with m f c j show ?thesis by (simp add: fetchf_decode_fail)
        next
          case (Inr data)
          show ?thesis
            unfolding fetchf_decoded [OF m f c j Inr] by auto
        qed
      qed
    qed
  qed
qed

lemma fetchf_unchanged:
  "fst (fetchf send name out fs) = Inl e \<Longrightarrow> snd (fetchf send name out fs) = fs"
  using fetchf_result [of send name out fs] by auto

lemma fetchf_written:
  "fst (fetchf send name out fs) = Inr p \<Longrightarrow>
     p = out \<and> (\<exists>data. snd (fetchf send name out fs) = fs(out \<mapsto> data))"
  using fetchf_result [of send name out fs] by auto


lemmas meta_eval =
  meta_fields_def parse_meta_def Let_def strip_ws_def py_isspace_def py_int_def int_isspace_def
  is_digit_def
  digit_val_def

lemmas client_eval = queryt_def dns_send_def ZONE_client_def strip_chars_def endswith_def

lemma str_nat_small: "str_nat 0 = ''0''" "str_nat 1 = ''1''" "str_nat 11 = ''11''"
  by code_simp+

lemma hello_meta_reply:
  "resolve hello_store \<lparr>q_id = i, q_name = ''meta.hello.lab.'', q_type = ''TXT''\<rparr> h
   = \<lparr>r_id = i, r_rcode = NOERROR,
      r_rr = [TXT_RR ''meta.hello.lab.''
        ''chunks=1;enc=base64;sha256=b94d27b9934d3e08a52e52d7da7dabfac484efe37a5380ee9088f7ace2efcde9;bytes=11'']\<rparr>"
proof -
  let ?q = "\<lparr>q_id = i, q_name = ''meta.hello.lab.'', q_type = ''TXT''\<rparr>"
  have z: "endswith (lower (q_name ?q)) ZONE" and t: "q_type ?q = ''TXT''"
    and p: "label_parts (lower (q_name ?q)) = [''meta'', ''hello'']"
    and l: "lower ''meta.hello.lab.'' = ''meta.hello.lab.''"
    by (simp_all add: query_eval)
  have c: "length (b64_chunks hello_bytes) = 1" by (simp add: hello_chunks)
  have b: "length hello_bytes = 11" by (simp add: hello_bytes_def)
  have n: "str_nat (length (b64_chunks hello_bytes)) = ''1''" "str_nat (length hello_bytes) = ''11''"
    unfolding c b by (rule str_nat_small)+
  show ?thesis
    unfolding resolve_meta [OF z t p, of hello_store h]
    by (simp add: hello_lookup hello_sha256 n l)
qed

lemma hello_chunk_reply:
  "resolve hello_store \<lparr>q_id = i, q_name = ''chunk0.hello.lab.'', q_type = ''TXT''\<rparr> h
   = \<lparr>r_id = i, r_rcode = NOERROR,
      r_rr = [TXT_RR ''chunk0.hello.lab.'' ''aGVsbG8gd29ybGQ='']\<rparr>"
proof -
  let ?q = "\<lparr>q_id = i, q_name = ''chunk0.hello.lab.'', q_type = ''TXT''\<rparr>"
  have z: "endswith (lower (q_name ?q)) ZONE" and t: "q_type ?q = ''TXT''"
    and p: "label_parts (lower (q_name ?q)) = [''chunk0'', ''hello'']"
    and l: "lower ''chunk0.hello.lab.'' = ''chunk0.hello.lab.''"
    by (simp_all add: query_eval)
  have s: "startswith ''chunk0'' ''chunk''" by (simp add: startswith_def)
  have i: "py_int ''0'' = Inr 0" by (rule py_int_zero)
  show ?thesis
    unfolding resolve_chunk [OF z t p s, of hello_store h]
    by (simp add: i hello_lookup hello_chunks l)
qed

lemma hello_meta_query:
  "queryt (dns_send hello_store) (''meta.'' @ ''hello'' @ ''.'' @ ZONE_client)
   = Inr ''chunks=1;enc=base64;sha256=b94d27b9934d3e08a52e52d7da7dabfac484efe37a5380ee9088f7ace2efcde9;bytes=11''"
  by (simp add: client_eval hello_meta_reply TXT_RR_def)

lemma hello_chunk_query:
  "queryt (dns_send hello_store) (''chunk'' @ str_nat 0 @ ''.'' @ ''hello'' @ ''.'' @ ZONE_client)
   = Inr ''aGVsbG8gd29ybGQ=''"
  by (simp add: client_eval hello_chunk_reply TXT_RR_def str_nat_small)

lemma hello_meta_fields:
  "meta_fields ''chunks=1;enc=base64;sha256=b94d27b9934d3e08a52e52d7da7dabfac484efe37a5380ee9088f7ace2efcde9;bytes=11''
   = Inr (1, ''b94d27b9934d3e08a52e52d7da7dabfac484efe37a5380ee9088f7ace2efcde9'', 11)"
  by (simp add: meta_eval)

lemma hello_decode: "b64decode ''aGVsbG8gd29ybGQ='' = Inr hello_bytes"
  using b64decode_b64encode [of hello_bytes] by (simp add: hello_b64)

lemma hello_ascii: "encode_ascii ''aGVsbG8gd29ybGQ='' = Inr ''aGVsbG8gd29ybGQ=''"
  by (simp add: encode_ascii_def)

lemma hello_fetch:
  "fetchf (dns_send hello_store) ''hello'' out fs = (Inr out, fs(out \<mapsto> hello_bytes))"
proof -
  have u: "[0..<nat 1] = [0]" by simp
  have c: "fetch_chunks (dns_send hello_store) ''hello'' [0..<nat 1] [] = Inr [''aGVsbG8gd29ybGQ='']"
    unfolding u by (simp only: fetch_chunks.simps hello_chunk_query sum.case append_Nil)
  have a: "encode_ascii (concat [''aGVsbG8gd29ybGQ='']) = Inr ''aGVsbG8gd29ybGQ=''"
    by (simp add: hello_ascii)
  have l: "int (length hello_bytes) = 11" by (simp add: hello_bytes_def)
  show ?thesis
    unfolding fetchf_decoded [OF hello_meta_query hello_meta_fields c a hello_decode]
    by (simp add: l hello_sha256)
qed

text \<open>
  C2, as amended. The file \<open>hello\<close> holds the eleven bytes of \<^verbatim>\<open>hello world\<close>. The reply
  to its meta query carries one answer, the text with \<open>chunks=1\<close>, the digest of 64
  hexadecimal digits that ends in \<open>cde9\<close>, and \<open>bytes=11\<close>; the reply to the query for
  chunk 0 carries \<open>aGVsbG8gd29ybGQ=\<close>; and \<^verbatim>\<open>fetchf\<close>, asking this server, writes the
  eleven bytes, with the length and the digest of the metadata both checked against
  them.
\<close>

theorem hello_scenario:
  "map (\<lambda>b. char_of (unat b)) hello_bytes = ''hello world''
   \<and> hello_store ''hello'' = Some (File hello_bytes)
   \<and> resolve hello_store \<lparr>q_id = i, q_name = ''meta.hello.lab.'', q_type = ''TXT''\<rparr> h
       = \<lparr>r_id = i, r_rcode = NOERROR,
          r_rr = [TXT_RR ''meta.hello.lab.''
            ''chunks=1;enc=base64;sha256=b94d27b9934d3e08a52e52d7da7dabfac484efe37a5380ee9088f7ace2efcde9;bytes=11'']\<rparr>
   \<and> resolve hello_store \<lparr>q_id = i, q_name = ''chunk0.hello.lab.'', q_type = ''TXT''\<rparr> h
       = \<lparr>r_id = i, r_rcode = NOERROR,
          r_rr = [TXT_RR ''chunk0.hello.lab.'' ''aGVsbG8gd29ybGQ='']\<rparr>
   \<and> fetchf (dns_send hello_store) ''hello'' out fs = (Inr out, fs(out \<mapsto> hello_bytes))
   \<and> meta_fields ''chunks=1;enc=base64;sha256=b94d27b9934d3e08a52e52d7da7dabfac484efe37a5380ee9088f7ace2efcde9;bytes=11''
       = Inr (1, sha256_hex hello_bytes, int (length hello_bytes))
   \<and> length hello_bytes = 11"
proof -
  have "map (\<lambda>b. char_of (unat b)) hello_bytes = ''hello world''"
    by code_simp
  moreover have "hello_store ''hello'' = Some (File hello_bytes)"
    by (simp add: hello_store_def)
  moreover have "length hello_bytes = 11"
    by (simp add: hello_bytes_def)
  ultimately show ?thesis
    by (simp add: hello_meta_reply hello_chunk_reply hello_fetch hello_meta_fields hello_sha256)
qed

text \<open>
  C2, the amended claim with the output path \<open>retrieved_hello.bin\<close> and no file there
  before.
\<close>

theorem hello_scenario_witness:
  "fetchf (dns_send hello_store) ''hello'' ''retrieved_hello.bin'' Map.empty
   = (Inr ''retrieved_hello.bin'', [''retrieved_hello.bin'' \<mapsto> hello_bytes])"
  using hello_scenario [of 0 "()" "''retrieved_hello.bin''" Map.empty] by simp

text \<open>
  C2 as stated fails: the digest in the claimed meta text has 63 digits, the last digit
  \<open>9\<close> of the SHA-256 of \<^verbatim>\<open>hello world\<close> is missing, and the reply of the server is not
  that text.
\<close>

theorem hello_scenario_counterexample:
  "map rr_rdata
     (r_rr (resolve hello_store \<lparr>q_id = 0, q_name = ''meta.hello.lab.'', q_type = ''TXT''\<rparr> ()))
   \<noteq> [''chunks=1;enc=base64;sha256=b94d27b9934d3e08a52e52d7da7dabfac484efe37a5380ee9088f7ace2efcde;bytes=11'']"
  by (simp add: hello_meta_reply TXT_RR_def)


lemma scripted_meta:
  "queryt (scripted_send meta chunk) (''meta.'' @ name @ ''.'' @ ZONE_client)
   = Inr (strip_chars [CHR 0x22] meta)"
  by (simp add: queryt_def scripted_send_def)

lemma scripted_chunk:
  "queryt (scripted_send meta chunk) (''chunk'' @ str_nat i @ ''.'' @ name @ ''.'' @ ZONE_client)
   = (case chunk of Inl e \<Rightarrow> Inl e | Inr c \<Rightarrow> Inr (strip_chars [CHR 0x22] c))"
  by (simp add: queryt_def scripted_send_def split: sum.split)

lemma scripted_chunks:
  "fetch_chunks (scripted_send meta (Inr ''aGVsbG8gd29ybGQ='')) name [0..<nat 1] []
   = Inr [''aGVsbG8gd29ybGQ='']"
proof -
  have u: "[0..<nat 1] = [0]" by simp
  have s: "strip_chars [CHR 0x22] ''aGVsbG8gd29ybGQ='' = ''aGVsbG8gd29ybGQ=''"
    by (simp add: strip_chars_def)
  show ?thesis
    unfolding u by (simp only: fetch_chunks.simps scripted_chunk sum.case append_Nil s)
qed

lemma scripted_joined: "encode_ascii (concat [''aGVsbG8gd29ybGQ='']) = Inr ''aGVsbG8gd29ybGQ=''"
  by (simp add: hello_ascii)

text \<open>
  C4, as amended. Reading the metadata fails exactly when the key \<open>chunks\<close> is absent
  (\<^verbatim>\<open>KeyError\<close>), when \<^verbatim>\<open>int\<close> rejects its value, or when the key \<open>bytes\<close> is there
  and \<^verbatim>\<open>int\<close> rejects its value. Other keys have no part in it. A missing \<open>sha256\<close>
  gives the empty digest and a missing \<open>bytes\<close> gives 0, and with the empty digest and
  the length 0 whatever the chunks decode to is written: both checks are skipped. Each
  check is skipped on its own: without \<open>bytes\<close> (or with the length 0) data of any length
  is written once the digest agrees or is skipped too, and without \<open>sha256\<close> (or with the
  empty digest) data of any digest is written once the length agrees or is skipped too.
\<close>

theorem meta_fields_failure:
  "((\<exists>e. meta_fields m = Inl e) \<longleftrightarrow>
       parse_meta m ''chunks'' = None
     \<or> (\<exists>v. parse_meta m ''chunks'' = Some v \<and> py_int v = Inl ValueError)
     \<or> (\<exists>v. parse_meta m ''bytes'' = Some v \<and> py_int v = Inl ValueError))
   \<and> (parse_meta m ''chunks'' = None \<longrightarrow> meta_fields m = Inl (KeyError ''chunks''))
   \<and> (meta_fields m = Inr (n, sha, len) \<longrightarrow>
        (parse_meta m ''sha256'' = None \<longrightarrow> sha = [])
      \<and> (parse_meta m ''bytes'' = None \<longrightarrow> len = 0))
   \<and> (queryt send (''meta.'' @ name @ ''.'' @ ZONE_client) = Inr m
      \<and> meta_fields m = Inr (n, [], 0)
      \<and> fetch_chunks send name [0..<nat n] [] = Inr chunks
      \<and> encode_ascii (concat chunks) = Inr joined
      \<and> b64decode joined = Inr data
      \<longrightarrow> fetchf send name out fs = (Inr out, fs(out \<mapsto> data)))
   \<and> (queryt send (''meta.'' @ name @ ''.'' @ ZONE_client) = Inr m
      \<and> meta_fields m = Inr (n, sha, len)
      \<and> fetch_chunks send name [0..<nat n] [] = Inr chunks
      \<and> encode_ascii (concat chunks) = Inr joined
      \<and> b64decode joined = Inr data
      \<and> (parse_meta m ''bytes'' = None \<or> len = 0)
      \<and> (sha = [] \<or> sha256_hex data = sha)
      \<longrightarrow> fetchf send name out fs = (Inr out, fs(out \<mapsto> data)))
   \<and> (queryt send (''meta.'' @ name @ ''.'' @ ZONE_client) = Inr m
      \<and> meta_fields m = Inr (n, sha, len)
      \<and> fetch_chunks send name [0..<nat n] [] = Inr chunks
      \<and> encode_ascii (concat chunks) = Inr joined
      \<and> b64decode joined = Inr data
      \<and> (parse_meta m ''sha256'' = None \<or> sha = [])
      \<and> (len = 0 \<or> int (length data) = len)
      \<longrightarrow> fetchf send name out fs = (Inr out, fs(out \<mapsto> data)))"
proof (intro conjI)
  show "(\<exists>e. meta_fields m = Inl e) \<longleftrightarrow>
       parse_meta m ''chunks'' = None
     \<or> (\<exists>v. parse_meta m ''chunks'' = Some v \<and> py_int v = Inl ValueError)
     \<or> (\<exists>v. parse_meta m ''bytes'' = Some v \<and> py_int v = Inl ValueError)"
    by (rule meta_fields_fails)
  show "parse_meta m ''chunks'' = None \<longrightarrow> meta_fields m = Inl (KeyError ''chunks'')"
    by (simp add: meta_fields_absent)
  show "meta_fields m = Inr (n, sha, len) \<longrightarrow>
        (parse_meta m ''sha256'' = None \<longrightarrow> sha = [])
      \<and> (parse_meta m ''bytes'' = None \<longrightarrow> len = 0)"
    using meta_fields_defaults [of m n sha len] by blast
  show "queryt send (''meta.'' @ name @ ''.'' @ ZONE_client) = Inr m
      \<and> meta_fields m = Inr (n, [], 0)
      \<and> fetch_chunks send name [0..<nat n] [] = Inr chunks
      \<and> encode_ascii (concat chunks) = Inr joined
      \<and> b64decode joined = Inr data
      \<longrightarrow> fetchf send name out fs = (Inr out, fs(out \<mapsto> data))"
  proof
    assume a: "queryt send (''meta.'' @ name @ ''.'' @ ZONE_client) = Inr m
      \<and> meta_fields m = Inr (n, [], 0)
      \<and> fetch_chunks send name [0..<nat n] [] = Inr chunks
      \<and> encode_ascii (concat chunks) = Inr joined
      \<and> b64decode joined = Inr data"
    then have q: "queryt send (''meta.'' @ name @ ''.'' @ ZONE_client) = Inr m"
      and f: "meta_fields m = Inr (n, [], 0)"
      and c: "fetch_chunks send name [0..<nat n] [] = Inr chunks"
      and j: "encode_ascii (concat chunks) = Inr joined"
      and d: "b64decode joined = Inr data"
      by blast+
    note fetchf_decoded [OF q f c j d, of out fs]
    then show "fetchf send name out fs = (Inr out, fs(out \<mapsto> data))" by simp
  qed
  show "queryt send (''meta.'' @ name @ ''.'' @ ZONE_client) = Inr m
      \<and> meta_fields m = Inr (n, sha, len)
      \<and> fetch_chunks send name [0..<nat n] [] = Inr chunks
      \<and> encode_ascii (concat chunks) = Inr joined
      \<and> b64decode joined = Inr data
      \<and> (parse_meta m ''bytes'' = None \<or> len = 0)
      \<and> (sha = [] \<or> sha256_hex data = sha)
      \<longrightarrow> fetchf send name out fs = (Inr out, fs(out \<mapsto> data))"
  proof
    assume a: "queryt send (''meta.'' @ name @ ''.'' @ ZONE_client) = Inr m
      \<and> meta_fields m = Inr (n, sha, len)
      \<and> fetch_chunks send name [0..<nat n] [] = Inr chunks
      \<and> encode_ascii (concat chunks) = Inr joined
      \<and> b64decode joined = Inr data
      \<and> (parse_meta m ''bytes'' = None \<or> len = 0)
      \<and> (sha = [] \<or> sha256_hex data = sha)"
    then have q: "queryt send (''meta.'' @ name @ ''.'' @ ZONE_client) = Inr m"
      and f: "meta_fields m = Inr (n, sha, len)"
      and c: "fetch_chunks send name [0..<nat n] [] = Inr chunks"
      and j: "encode_ascii (concat chunks) = Inr joined"
      and d: "b64decode joined = Inr data"
      and k: "parse_meta m ''bytes'' = None \<or> len = 0"
      and x: "sha = [] \<or> sha256_hex data = sha"
      by blast+
    from k meta_fields_defaults(2) [OF f] have l: "len = 0" by blast
    from x l show "fetchf send name out fs = (Inr out, fs(out \<mapsto> data))"
      unfolding fetchf_decoded [OF q f c j d, of out fs] by auto
  qed
  show "queryt send (''meta.'' @ name @ ''.'' @ ZONE_client) = Inr m
      \<and> meta_fields m = Inr (n, sha, len)
      \<and> fetch_chunks send name [0..<nat n] [] = Inr chunks
      \<and> encode_ascii (concat chunks) = Inr joined
      \<and> b64decode joined = Inr data
      \<and> (parse_meta m ''sha256'' = None \<or> sha = [])
      \<and> (len = 0 \<or> int (length data) = len)
      \<longrightarrow> fetchf send name out fs = (Inr out, fs(out \<mapsto> data))"
  proof
    assume a: "queryt send (''meta.'' @ name @ ''.'' @ ZONE_client) = Inr m
      \<and> meta_fields m = Inr (n, sha, len)
      \<and> fetch_chunks send name [0..<nat n] [] = Inr chunks
      \<and> encode_ascii (concat chunks) = Inr joined
      \<and> b64decode joined = Inr data
      \<and> (parse_meta m ''sha256'' = None \<or> sha = [])
      \<and> (len = 0 \<or> int (length data) = len)"
    then have q: "queryt send (''meta.'' @ name @ ''.'' @ ZONE_client) = Inr m"
      and f: "meta_fields m = Inr (n, sha, len)"
      and c: "fetch_chunks send name [0..<nat n] [] = Inr chunks"
      and j: "encode_ascii (concat chunks) = Inr joined"
      and d: "b64decode joined = Inr data"
      and k: "parse_meta m ''sha256'' = None \<or> sha = []"
      and x: "len = 0 \<or> int (length data) = len"
      by blast+
    from k meta_fields_defaults(1) [OF f] have l: "sha = []" by blast
    from x l show "fetchf send name out fs = (Inr out, fs(out \<mapsto> data))"
      unfolding fetchf_decoded [OF q f c j d, of out fs] by auto
  qed
qed

text \<open>
  C4, the amended claim at a text with an unknown key, at one without \<open>chunks\<close>, at one
  with \<open>chunks=x\<close>, and at three fetches of the eleven bytes: with the metadata
  \<open>chunks=1\<close> alone, with \<open>bytes=11\<close> and no digest, and with the digest and no \<open>bytes\<close>.
\<close>

theorem meta_fields_failure_witness:
  "meta_fields ''chunks=2;foo=bar'' = Inr (2, [], 0)
   \<and> meta_fields ''enc=base64;bytes=11'' = Inl (KeyError ''chunks'')
   \<and> (\<exists>e. meta_fields ''chunks=x'' = Inl e)
   \<and> fetchf (scripted_send ''chunks=1'' (Inr ''aGVsbG8gd29ybGQ='')) ''f'' ''out'' Map.empty
       = (Inr ''out'', [''out'' \<mapsto> hello_bytes])
   \<and> fetchf (scripted_send ''chunks=1;bytes=11'' (Inr ''aGVsbG8gd29ybGQ='')) ''f'' ''out''
         Map.empty
       = (Inr ''out'', [''out'' \<mapsto> hello_bytes])
   \<and> fetchf (scripted_send
           ''chunks=1;sha256=b94d27b9934d3e08a52e52d7da7dabfac484efe37a5380ee9088f7ace2efcde9''
           (Inr ''aGVsbG8gd29ybGQ='')) ''f'' ''out'' Map.empty
       = (Inr ''out'', [''out'' \<mapsto> hello_bytes])"
proof -
  have 1: "meta_fields ''chunks=2;foo=bar'' = Inr (2, [], 0)"
    by (simp add: meta_eval)
  have "parse_meta ''enc=base64;bytes=11'' ''chunks'' = None"
    by (simp add: meta_eval)
  with meta_fields_failure [where m = "''enc=base64;bytes=11''"]
  have 2: "meta_fields ''enc=base64;bytes=11'' = Inl (KeyError ''chunks'')" by blast
  have "parse_meta ''chunks=x'' ''chunks'' = Some ''x'' \<and> py_int ''x'' = Inl ValueError"
    by (simp add: meta_eval)
  with meta_fields_failure [where m = "''chunks=x''"]
  have 3: "\<exists>e. meta_fields ''chunks=x'' = Inl e" by blast
  let ?s = "scripted_send ''chunks=1'' (Inr ''aGVsbG8gd29ybGQ='')"
  have q: "queryt ?s (''meta.'' @ ''f'' @ ''.'' @ ZONE_client) = Inr ''chunks=1''"
    unfolding scripted_meta by (simp add: strip_chars_def)
  have f: "meta_fields ''chunks=1'' = Inr (1, [], 0)"
    by (simp add: meta_eval)
  from meta_fields_failure [where m = "''chunks=1''" and send = ?s and name = "''f''" and n = 1
      and chunks = "[''aGVsbG8gd29ybGQ='']" and joined = "''aGVsbG8gd29ybGQ=''"
      and data = hello_bytes and out = "''out''" and fs = Map.empty]
    q f scripted_chunks [of "''chunks=1''" "''f''"] scripted_joined hello_decode
  have 4: "fetchf ?s ''f'' ''out'' Map.empty = (Inr ''out'', [''out'' \<mapsto> hello_bytes])"
    by blast
  let ?s5 = "scripted_send ''chunks=1;bytes=11'' (Inr ''aGVsbG8gd29ybGQ='')"
  have "queryt ?s5 (''meta.'' @ ''f'' @ ''.'' @ ZONE_client) = Inr ''chunks=1;bytes=11''
      \<and> meta_fields ''chunks=1;bytes=11'' = Inr (1, [], 11)
      \<and> fetch_chunks ?s5 ''f'' [0..<nat 1] [] = Inr [''aGVsbG8gd29ybGQ='']
      \<and> encode_ascii (concat [''aGVsbG8gd29ybGQ='']) = Inr ''aGVsbG8gd29ybGQ=''
      \<and> b64decode ''aGVsbG8gd29ybGQ='' = Inr hello_bytes
      \<and> (parse_meta ''chunks=1;bytes=11'' ''sha256'' = None \<or> ([]::string) = [])
      \<and> ((11::int) = 0 \<or> int (length hello_bytes) = 11)"
    unfolding scripted_meta scripted_chunks scripted_joined hello_decode
    by (simp add: strip_chars_def meta_eval hello_bytes_def)
  with meta_fields_failure [where m = "''chunks=1;bytes=11''" and send = ?s5 and name = "''f''"
      and n = 1 and sha = "[]" and len = 11 and chunks = "[''aGVsbG8gd29ybGQ='']"
      and joined = "''aGVsbG8gd29ybGQ=''" and data = hello_bytes and out = "''out''"
      and fs = Map.empty]
  have 5: "fetchf ?s5 ''f'' ''out'' Map.empty = (Inr ''out'', [''out'' \<mapsto> hello_bytes])"
    by blast
  let ?d = "''b94d27b9934d3e08a52e52d7da7dabfac484efe37a5380ee9088f7ace2efcde9''"
  let ?m6 = "''chunks=1;sha256=b94d27b9934d3e08a52e52d7da7dabfac484efe37a5380ee9088f7ace2efcde9''"
  let ?s6 = "scripted_send ?m6 (Inr ''aGVsbG8gd29ybGQ='')"
  have "queryt ?s6 (''meta.'' @ ''f'' @ ''.'' @ ZONE_client) = Inr ?m6
      \<and> meta_fields ?m6 = Inr (1, ?d, 0)
      \<and> fetch_chunks ?s6 ''f'' [0..<nat 1] [] = Inr [''aGVsbG8gd29ybGQ='']
      \<and> encode_ascii (concat [''aGVsbG8gd29ybGQ='']) = Inr ''aGVsbG8gd29ybGQ=''
      \<and> b64decode ''aGVsbG8gd29ybGQ='' = Inr hello_bytes
      \<and> (parse_meta ?m6 ''bytes'' = None \<or> (0::int) = 0)
      \<and> (?d = [] \<or> sha256_hex hello_bytes = ?d)"
    unfolding scripted_meta scripted_chunks scripted_joined hello_decode hello_sha256
    by (simp add: strip_chars_def meta_eval)
  with meta_fields_failure [where m = ?m6 and send = ?s6 and name = "''f''"
      and n = 1 and sha = ?d and len = 0 and chunks = "[''aGVsbG8gd29ybGQ='']"
      and joined = "''aGVsbG8gd29ybGQ=''" and data = hello_bytes and out = "''out''"
      and fs = Map.empty]
  have 6: "fetchf ?s6 ''f'' ''out'' Map.empty = (Inr ''out'', [''out'' \<mapsto> hello_bytes])"
    by blast
  from 1 2 3 4 5 6 show ?thesis by blast
qed

text \<open>
  C4 as stated fails: in \<open>chunks=1;bytes=abc\<close> the key \<open>chunks\<close> is there and numeric,
  and reading the metadata raises \<^verbatim>\<open>ValueError\<close> at \<^verbatim>\<open>int("abc")\<close>.
\<close>

theorem meta_fields_failure_counterexample:
  "parse_meta ''chunks=1;bytes=abc'' ''chunks'' = Some ''1''
   \<and> py_int ''1'' = Inr 1
   \<and> meta_fields ''chunks=1;bytes=abc'' = Inl ValueError"
  by (simp add: meta_eval)


text \<open>
  C8. When \<^verbatim>\<open>fetchf\<close> raises, the files are as they were before. It raises when the
  meta query fails, when the metadata cannot be read, when the query for one of the
  chunks fails, when the length differs from a non-zero \<open>bytes\<close> and when the digest
  differs from a non-empty \<open>sha256\<close>. The only result that is no error is the output
  path, with the decoded bytes written there.
\<close>

theorem fetchf_failure:
  "(fst (fetchf send name out fs) = Inl e \<longrightarrow> snd (fetchf send name out fs) = fs)
   \<and> (queryt send (''meta.'' @ name @ ''.'' @ ZONE_client) = Inl e
      \<longrightarrow> fetchf send name out fs = (Inl e, fs))
   \<and> (queryt send (''meta.'' @ name @ ''.'' @ ZONE_client) = Inr m \<and> meta_fields m = Inl e
      \<longrightarrow> fetchf send name out fs = (Inl e, fs))
   \<and> (queryt send (''meta.'' @ name @ ''.'' @ ZONE_client) = Inr m
      \<and> meta_fields m = Inr (n, sha, len) \<and> i < nat n
      \<and> queryt send (''chunk'' @ str_nat i @ ''.'' @ name @ ''.'' @ ZONE_client) = Inl e
      \<longrightarrow> (\<exists>e'. fetchf send name out fs = (Inl e', fs)))
   \<and> (queryt send (''meta.'' @ name @ ''.'' @ ZONE_client) = Inr m
      \<and> meta_fields m = Inr (n, sha, len)
      \<and> fetch_chunks send name [0..<nat n] [] = Inr chunks
      \<and> encode_ascii (concat chunks) = Inr joined
      \<and> b64decode joined = Inr data
      \<and> ((len \<noteq> 0 \<and> int (length data) \<noteq> len) \<or> (sha \<noteq> [] \<and> sha256_hex data \<noteq> sha))
      \<longrightarrow> (\<exists>msg. fetchf send name out fs = (Inl (RuntimeError msg), fs)))
   \<and> (\<forall>p. fst (fetchf send name out fs) = Inr p \<longrightarrow>
         p = out \<and> (\<exists>data. snd (fetchf send name out fs) = fs(out \<mapsto> data)))"
proof (intro conjI allI impI)
  show "snd (fetchf send name out fs) = fs" if "fst (fetchf send name out fs) = Inl e"
    using that by (rule fetchf_unchanged)
  show "fetchf send name out fs = (Inl e, fs)"
    if "queryt send (''meta.'' @ name @ ''.'' @ ZONE_client) = Inl e"
    using that by (rule fetchf_meta_fail)
  show "fetchf send name out fs = (Inl e, fs)"
    if "queryt send (''meta.'' @ name @ ''.'' @ ZONE_client) = Inr m \<and> meta_fields m = Inl e"
    using that fetchf_fields_fail by blast
  show "\<exists>e'. fetchf send name out fs = (Inl e', fs)"
    if a: "queryt send (''meta.'' @ name @ ''.'' @ ZONE_client) = Inr m
      \<and> meta_fields m = Inr (n, sha, len) \<and> i < nat n
      \<and> queryt send (''chunk'' @ str_nat i @ ''.'' @ name @ ''.'' @ ZONE_client) = Inl e"
  proof -
    from a have "i \<in> set [0..<nat n]" by simp
    with a obtain e' where "fetch_chunks send name [0..<nat n] [] = Inl e'"
      using fetch_chunks_fails by blast
    with a fetchf_chunk_fail show ?thesis by blast
  qed
  show "\<exists>msg. fetchf send name out fs = (Inl (RuntimeError msg), fs)"
    if a: "queryt send (''meta.'' @ name @ ''.'' @ ZONE_client) = Inr m
      \<and> meta_fields m = Inr (n, sha, len)
      \<and> fetch_chunks send name [0..<nat n] [] = Inr chunks
      \<and> encode_ascii (concat chunks) = Inr joined
      \<and> b64decode joined = Inr data
      \<and> ((len \<noteq> 0 \<and> int (length data) \<noteq> len) \<or> (sha \<noteq> [] \<and> sha256_hex data \<noteq> sha))"
  proof -
    from a have q: "queryt send (''meta.'' @ name @ ''.'' @ ZONE_client) = Inr m"
      and f: "meta_fields m = Inr (n, sha, len)"
      and c: "fetch_chunks send name [0..<nat n] [] = Inr chunks"
      and j: "encode_ascii (concat chunks) = Inr joined"
      and d: "b64decode joined = Inr data"
      and x: "(len \<noteq> 0 \<and> int (length data) \<noteq> len) \<or> (sha \<noteq> [] \<and> sha256_hex data \<noteq> sha)"
      by blast+
    from x show ?thesis
      unfolding fetchf_decoded [OF q f c j d, of out fs] by auto
  qed
  show "p = out" if "fst (fetchf send name out fs) = Inr p" for p
    using that fetchf_written by blast
  show "\<exists>data. snd (fetchf send name out fs) = fs(out \<mapsto> data)"
    if "fst (fetchf send name out fs) = Inr p" for p
    using that fetchf_written by blast
qed

text \<open>
  C8 at five fetches over a file \<open>out\<close> that holds one byte: a transport that fails,
  metadata without \<open>chunks\<close>, a chunk query that fails, a wrong length and a wrong
  digest. The file keeps its byte every time.
\<close>

theorem fetchf_failure_witness:
  "fetchf (\<lambda>name. Inl TransportError) ''f'' ''out'' [''out'' \<mapsto> [1]]
     = (Inl TransportError, [''out'' \<mapsto> [1]])
   \<and> fetchf (scripted_send ''enc=base64'' (Inr ''aGVsbG8gd29ybGQ='')) ''f'' ''out'' [''out'' \<mapsto> [1]]
     = (Inl (KeyError ''chunks''), [''out'' \<mapsto> [1]])
   \<and> (\<exists>e. fetchf (scripted_send ''chunks=1'' (Inl TransportError)) ''f'' ''out'' [''out'' \<mapsto> [1]]
     = (Inl e, [''out'' \<mapsto> [1]]))
   \<and> (\<exists>msg. fetchf (scripted_send ''chunks=1;bytes=5'' (Inr ''aGVsbG8gd29ybGQ='')) ''f'' ''out''
         [''out'' \<mapsto> [1]]
     = (Inl (RuntimeError msg), [''out'' \<mapsto> [1]]))
   \<and> (\<exists>msg. fetchf (scripted_send ''chunks=1;sha256=00'' (Inr ''aGVsbG8gd29ybGQ='')) ''f'' ''out''
         [''out'' \<mapsto> [1]]
     = (Inl (RuntimeError msg), [''out'' \<mapsto> [1]]))"
proof -
  let ?fs = "[''out'' \<mapsto> [1 :: byte]]"
  let ?c = "Inr ''aGVsbG8gd29ybGQ='' :: error + string"
  have "queryt (\<lambda>name. Inl TransportError) (''meta.'' @ ''f'' @ ''.'' @ ZONE_client)
      = Inl TransportError"
    by (simp add: queryt_def)
  with fetchf_failure [where send = "\<lambda>name. Inl TransportError" and name = "''f''"
      and e = TransportError and out = "''out''" and fs = ?fs]
  have 1: "fetchf (\<lambda>name. Inl TransportError) ''f'' ''out'' ?fs = (Inl TransportError, ?fs)"
    by blast
  have "queryt (scripted_send ''enc=base64'' ?c) (''meta.'' @ ''f'' @ ''.'' @ ZONE_client)
      = Inr ''enc=base64'' \<and> meta_fields ''enc=base64'' = Inl (KeyError ''chunks'')"
    unfolding scripted_meta by (simp add: strip_chars_def meta_eval)
  with fetchf_failure [where send = "scripted_send ''enc=base64'' ?c" and name = "''f''"
      and m = "''enc=base64''" and e = "KeyError ''chunks''" and out = "''out''" and fs = ?fs]
  have 2: "fetchf (scripted_send ''enc=base64'' ?c) ''f'' ''out'' ?fs
      = (Inl (KeyError ''chunks''), ?fs)"
    by blast
  let ?s3 = "scripted_send ''chunks=1'' (Inl TransportError)"
  have "queryt ?s3 (''meta.'' @ ''f'' @ ''.'' @ ZONE_client) = Inr ''chunks=1''
      \<and> meta_fields ''chunks=1'' = Inr (1, [], 0) \<and> 0 < nat 1
      \<and> queryt ?s3 (''chunk'' @ str_nat 0 @ ''.'' @ ''f'' @ ''.'' @ ZONE_client)
          = Inl TransportError"
    unfolding scripted_meta scripted_chunk by (simp add: strip_chars_def meta_eval)
  with fetchf_failure [where send = ?s3 and name = "''f''" and m = "''chunks=1''" and n = 1
      and sha = "[]" and len = 0 and i = 0 and e = TransportError and out = "''out''" and fs = ?fs]
  have 3: "\<exists>e. fetchf ?s3 ''f'' ''out'' ?fs = (Inl e, ?fs)"
    by blast
  let ?s4 = "scripted_send ''chunks=1;bytes=5'' ?c"
  have "queryt ?s4 (''meta.'' @ ''f'' @ ''.'' @ ZONE_client) = Inr ''chunks=1;bytes=5''
      \<and> meta_fields ''chunks=1;bytes=5'' = Inr (1, [], 5)
      \<and> fetch_chunks ?s4 ''f'' [0..<nat 1] [] = Inr [''aGVsbG8gd29ybGQ='']
      \<and> encode_ascii (concat [''aGVsbG8gd29ybGQ='']) = Inr ''aGVsbG8gd29ybGQ=''
      \<and> b64decode ''aGVsbG8gd29ybGQ='' = Inr hello_bytes
      \<and> (((5::int) \<noteq> 0 \<and> int (length hello_bytes) \<noteq> 5)
          \<or> (([]::string) \<noteq> [] \<and> sha256_hex hello_bytes \<noteq> []))"
    unfolding scripted_meta scripted_chunks scripted_joined hello_decode
    by (simp add: strip_chars_def meta_eval hello_bytes_def)
  with fetchf_failure [where send = ?s4 and name = "''f''" and m = "''chunks=1;bytes=5''"
      and n = 1 and sha = "[]" and len = 5 and chunks = "[''aGVsbG8gd29ybGQ='']"
      and joined = "''aGVsbG8gd29ybGQ=''" and data = hello_bytes and out = "''out''" and fs = ?fs]
  have 4: "\<exists>msg. fetchf ?s4 ''f'' ''out'' ?fs = (Inl (RuntimeError msg), ?fs)"
    by blast
  let ?s5 = "scripted_send ''chunks=1;sha256=00'' ?c"
  have "queryt ?s5 (''meta.'' @ ''f'' @ ''.'' @ ZONE_client) = Inr ''chunks=1;sha256=00''
      \<and> meta_fields ''chunks=1;sha256=00'' = Inr (1, ''00'', 0)
      \<and> fetch_chunks ?s5 ''f'' [0..<nat 1] [] = Inr [''aGVsbG8gd29ybGQ='']
      \<and> encode_ascii (concat [''aGVsbG8gd29ybGQ='']) = Inr ''aGVsbG8gd29ybGQ=''
      \<and> b64decode ''aGVsbG8gd29ybGQ='' = Inr hello_bytes
      \<and> (((0::int) \<noteq> 0 \<and> int (length hello_bytes) \<noteq> 0)
          \<or> (''00'' \<noteq> [] \<and> sha256_hex hello_bytes \<noteq> ''00''))"
    unfolding scripted_meta scripted_chunks scripted_joined hello_decode hello_sha256
    by (simp add: strip_chars_def meta_eval)
  with fetchf_failure [where send = ?s5 and name = "''f''" and m = "''chunks=1;sha256=00''"
      and n = 1 and sha = "''00''" and len = 0 and chunks = "[''aGVsbG8gd29ybGQ='']"
      and joined = "''aGVsbG8gd29ybGQ=''" and data = hello_bytes and out = "''out''" and fs = ?fs]
  have 5: "\<exists>msg. fetchf ?s5 ''f'' ''out'' ?fs = (Inl (RuntimeError msg), ?fs)"
    by blast
  from 1 2 3 4 5 show ?thesis by blast
qed

end
